theory Spec2Isabelle
  imports Complex_Main "HOL-Library.Monad_Syntax"
begin

section \<open>Loan amortization and payment schedule\<close>

text \<open>
  A shallow embedding of the class \<open>MortgagePaymentCalculator\<close> of
  \<^verbatim>\<open>LoanAmortization&PaymentSchedule.py\<close>.

  Numbers: the Python floats of the source are modelled as mathematical reals, so
  \<open>+\<close>, \<open>-\<close>, \<open>*\<close>, \<open>/\<close> and \<open>**\<close> are exact; the rounding error of binary
  floating point, overflow, infinities and NaN are outside the model.  The years of the
  term are an \<open>int\<close> (the source passes them to \<open>range\<close>); the years of
  amortization, an \<open>int\<close> or a float in the source, are a real.

  Errors: a division by zero raises \<open>ZeroDivisionError\<close> in Python; a negative float
  raised to a non-integral power is a complex number in Python, which leaves the
  real-valued model, so the model stops there with \<open>ComplexResult\<close>.
\<close>

subsection \<open>Errors as values\<close>

datatype error = ZeroDivisionError | ComplexResult

definition bind_err :: "error + 'a \<Rightarrow> ('a \<Rightarrow> error + 'b) \<Rightarrow> error + 'b" where
  "bind_err m f = (case m of Inl e \<Rightarrow> Inl e | Inr x \<Rightarrow> f x)"

subsection \<open>Python arithmetic\<close>

text \<open>\<open>x / y\<close> on Python floats.\<close>

definition py_truediv :: "real \<Rightarrow> real \<Rightarrow> error + real" where
  "py_truediv x y = (if y = 0 then Inl ZeroDivisionError else Inr (x / y))"

text \<open>
  \<open>x ** y\<close> on Python floats: \<open>0.0 ** 0\<close> is \<open>1.0\<close>, \<open>0.0\<close> to a negative power
  raises, a negative base with an integral exponent is an ordinary power and with any
  other exponent a complex number.
\<close>

definition py_pow :: "real \<Rightarrow> real \<Rightarrow> error + real" where
  "py_pow x y =
     (if 0 < x then Inr (x powr y)
      else if x = 0 then
        (if y = 0 then Inr 1 else if 0 < y then Inr 0 else Inl ZeroDivisionError)
      else if y = of_int \<lfloor>y\<rfloor> then Inr (x powi \<lfloor>y\<rfloor>)
      else Inl ComplexResult)"

text \<open>
  \<open>np.rint\<close>: the nearest integer, a tie going to the even neighbour.
\<close>

definition rint :: "real \<Rightarrow> int" where
  "rint x =
     (let f = \<lfloor>x\<rfloor>; d = x - of_int f
      in if d < 1 / 2 then f
         else if 1 / 2 < d then f + 1
         else if even f then f else f + 1)"

text \<open>
  \<open>np.round(x, 2)\<close>: numpy scales by \<open>10 ** 2\<close>, rounds with \<open>rint\<close> and scales back.
\<close>

definition np_round2 :: "real \<Rightarrow> real" where
  "np_round2 x = of_int (rint (x * 100)) / 100"

subsection \<open>The calculator object\<close>

text \<open>The fields that \<open>__init__\<close> sets on \<open>self\<close>.\<close>

record calculator =
  principal :: real
  interestrate :: real
  amortization_period :: real
  term_years :: int
  monthlyinterestrate :: real
  semimonthlyinterestrate :: real
  biweeklyinterestrate :: real
  weeklyinterestrate :: real

text \<open>
  \<open>__init__(self, principal, interestrate, amortization_period, term)\<close>: the yearly rate
  arrives as a percentage and is stored divided by 100; the four periodic rates are
  \<open>(1 + rate / 2) ** (2 / f) - 1\<close>.
\<close>

definition init :: "real \<Rightarrow> real \<Rightarrow> real \<Rightarrow> int \<Rightarrow> error + calculator" where
  "init principal0 interestrate0 amortization_period0 term0 =
     (let rate = interestrate0 / 100 in
      bind_err (py_pow (1 + rate / 2) (2 / 12)) (\<lambda>m.
      bind_err (py_pow (1 + rate / 2) (2 / 24)) (\<lambda>s.
      bind_err (py_pow (1 + rate / 2) (2 / 26)) (\<lambda>b.
      bind_err (py_pow (1 + rate / 2) (2 / 52)) (\<lambda>w.
        Inr \<lparr> principal = principal0,
              interestrate = rate,
              amortization_period = amortization_period0,
              term_years = term0,
              monthlyinterestrate = m - 1,
              semimonthlyinterestrate = s - 1,
              biweeklyinterestrate = b - 1,
              weeklyinterestrate = w - 1 \<rparr>)))))"

subsection \<open>Payments\<close>

text \<open>The inner function \<open>calculate_payment(periodic_rate, periods)\<close>; \<open>p\<close> is
  \<open>self.principal\<close>.\<close>

definition calculate_payment :: "real \<Rightarrow> real \<Rightarrow> real \<Rightarrow> error + real" where
  "calculate_payment p periodic_rate periods =
     (if periodic_rate = 0 then py_truediv p periods
      else bind_err (py_pow (1 + periodic_rate) periods) (\<lambda>x.
             py_truediv (p * (periodic_rate * x)) (x - 1)))"

type_synonym payments = "real \<times> real \<times> real \<times> real \<times> real \<times> real"

text \<open>\<open>calculatepayments(self)\<close>: the tuple of the six payment amounts.\<close>

definition calculatepayments :: "calculator \<Rightarrow> error + payments" where
  "calculatepayments c =
     (let n_months = amortization_period c * 12 in
      bind_err (calculate_payment (principal c) (monthlyinterestrate c) n_months)
        (\<lambda>MonthlyPayment.
      bind_err (calculate_payment (principal c) (semimonthlyinterestrate c) (n_months * 2))
        (\<lambda>SemiMonthlyPayment.
      bind_err (calculate_payment (principal c) (biweeklyinterestrate c) (n_months * (26 / 12)))
        (\<lambda>BiweeklyPayment.
      bind_err (calculate_payment (principal c) (weeklyinterestrate c) (n_months * (52 / 12)))
        (\<lambda>WeeklyPayment.
        Inr (MonthlyPayment, SemiMonthlyPayment, BiweeklyPayment, WeeklyPayment,
             MonthlyPayment / 2, MonthlyPayment / 4))))))"

subsection \<open>The six plans\<close>

text \<open>
  The keys of the dictionaries of \<open>generate_schedule\<close>, in the order of
  \<open>payment_names\<close>: \<open>'Monthly'\<close>, \<open>'Semi-Monthly'\<close>, \<open>'Bi-Weekly'\<close>, \<open>'Weekly'\<close>,
  \<open>'Rapid Bi-Weekly'\<close>, \<open>'Rapid Weekly'\<close>.  Every lookup of the source uses one of
  these six keys, each dictionary holds all six, so no lookup fails.
\<close>

datatype plan = Monthly | Semi_Monthly | Bi_Weekly | Weekly | Rapid_Bi_Weekly | Rapid_Weekly

definition payment_names :: "plan list" where
  "payment_names = [Monthly, Semi_Monthly, Bi_Weekly, Weekly, Rapid_Bi_Weekly, Rapid_Weekly]"

text \<open>\<open>payment_info = dict(zip(payment_names, payments))\<close>.\<close>

fun payment_info :: "payments \<Rightarrow> plan \<Rightarrow> real" where
  "payment_info (m, s, b, w, rb, rw) Monthly = m"
| "payment_info (m, s, b, w, rb, rw) Semi_Monthly = s"
| "payment_info (m, s, b, w, rb, rw) Bi_Weekly = b"
| "payment_info (m, s, b, w, rb, rw) Weekly = w"
| "payment_info (m, s, b, w, rb, rw) Rapid_Bi_Weekly = rb"
| "payment_info (m, s, b, w, rb, rw) Rapid_Weekly = rw"

fun frequencies :: "plan \<Rightarrow> int" where
  "frequencies Monthly = 12"
| "frequencies Semi_Monthly = 24"
| "frequencies Bi_Weekly = 26"
| "frequencies Weekly = 52"
| "frequencies Rapid_Bi_Weekly = 26"
| "frequencies Rapid_Weekly = 52"

fun rates :: "calculator \<Rightarrow> plan \<Rightarrow> real" where
  "rates c Monthly = monthlyinterestrate c"
| "rates c Semi_Monthly = semimonthlyinterestrate c"
| "rates c Bi_Weekly = biweeklyinterestrate c"
| "rates c Weekly = weeklyinterestrate c"
| "rates c Rapid_Bi_Weekly = biweeklyinterestrate c"
| "rates c Rapid_Weekly = weeklyinterestrate c"

definition total_term_payments :: "calculator \<Rightarrow> plan \<Rightarrow> int" where
  "total_term_payments c name = term_years c * frequencies name"

subsection \<open>The schedule\<close>

text \<open>One line of a schedule's data frame, with the six columns of the source.\<close>

record row =
  Period :: int
  Beginning_Balance :: real
  Payment :: real
  Interest_Paid :: real
  Principal_Paid :: real
  Ending_Balance :: real

text \<open>
  The body of the loop over the periods, for period \<open>i\<close> and the balance the period
  starts from.  The source appends to five column lists and adds the constant column
  \<open>np.round(Pmt, 2)\<close> when it builds the data frame; the model builds the line at once.
\<close>

definition period_row :: "real \<Rightarrow> real \<Rightarrow> int \<Rightarrow> real \<Rightarrow> row" where
  "period_row Pmt Rate i current_balance =
     (let I_Pmt = np_round2 (current_balance * Rate);
          Principal_Pmt = np_round2 (Pmt - I_Pmt)
      in if current_balance - Principal_Pmt < 0
         then \<lparr> Period = i, Beginning_Balance = np_round2 current_balance,
                Payment = np_round2 Pmt, Interest_Paid = I_Pmt,
                Principal_Paid = current_balance, Ending_Balance = 0 \<rparr>
         else \<lparr> Period = i, Beginning_Balance = np_round2 current_balance,
                Payment = np_round2 Pmt, Interest_Paid = I_Pmt,
                Principal_Paid = Principal_Pmt,
                Ending_Balance = np_round2 (current_balance - Principal_Pmt) \<rparr>)"

text \<open>
  \<open>for i in range(1, Term_Periods + 1)\<close> with its \<open>break\<close>: the second \<open>nat\<close> argument
  counts the periods still to run, \<open>i\<close> is the period's number.
\<close>

fun schedule_loop :: "real \<Rightarrow> real \<Rightarrow> int \<Rightarrow> nat \<Rightarrow> real \<Rightarrow> row list" where
  "schedule_loop Pmt Rate i 0 current_balance = []"
| "schedule_loop Pmt Rate i (Suc k) current_balance =
     (let r = period_row Pmt Rate i current_balance
      in if Ending_Balance r \<le> 0 then [r]
         else r # schedule_loop Pmt Rate (i + 1) k (Ending_Balance r))"

text \<open>
  \<open>generate_schedule(self)\<close>: the dictionary from the plan's name to its data frame.
  \<open>range(1, Term_Periods + 1)\<close> is empty when \<open>Term_Periods\<close> is not positive.
\<close>

definition plan_schedule :: "calculator \<Rightarrow> payments \<Rightarrow> plan \<Rightarrow> row list" where
  "plan_schedule c pays name =
     schedule_loop (payment_info pays name) (rates c name) 1
       (nat (total_term_payments c name)) (principal c)"

definition generate_schedule :: "calculator \<Rightarrow> error + (plan \<Rightarrow> row list)" where
  "generate_schedule c =
     bind_err (calculatepayments c) (\<lambda>pays. Inr (plan_schedule c pays))"

subsection \<open>The objects the methods create and change\<close>

text \<open>
  \<open>generate_schedule\<close> creates lists and dictionaries and changes them in place
  (\<open>append\<close>, item assignment), in the presence of the object \<open>self\<close> and of whatever
  earlier calls have left behind.  To state what a call does to the objects that exist,
  the two methods are modelled a second time on a heap: the list of all objects created
  so far.  A reference is an index into it; creating an object appends it.  Only objects
  that are changed after their creation, and the instances of the class, live on the
  heap; floats, tuples, the dictionaries that are written once as a literal and the data
  frames (pandas copies the columns it is given) are values.

  An operation on a reference returns \<open>None\<close> when the reference does not hold an
  object of the kind the operation needs, or a key is missing.
\<close>

datatype obj =
    Instance calculator
  | IntList "int list"
  | FloatList "real list"
  | TermDict "plan \<Rightarrow> int option"
  | ScheduleDict "plan \<Rightarrow> row list option"

type_synonym heap = "obj list"

type_synonym ref = nat

text \<open>Creating an object: \<open>[]\<close>, \<open>{}\<close>, a constructor call.\<close>

definition new_obj :: "obj \<Rightarrow> heap \<Rightarrow> ref \<times> heap" where
  "new_obj x h = (length h, h @ [x])"

definition get_obj :: "ref \<Rightarrow> heap \<Rightarrow> obj option" where
  "get_obj r h = (if r < length h then Some (h ! r) else None)"

text \<open>Reading the fields of \<open>self\<close>.\<close>

definition get_instance :: "ref \<Rightarrow> heap \<Rightarrow> calculator option" where
  "get_instance r h = (case get_obj r h of Some (Instance c) \<Rightarrow> Some c | _ \<Rightarrow> None)"

definition get_ints :: "ref \<Rightarrow> heap \<Rightarrow> int list option" where
  "get_ints r h = (case get_obj r h of Some (IntList xs) \<Rightarrow> Some xs | _ \<Rightarrow> None)"

definition get_floats :: "ref \<Rightarrow> heap \<Rightarrow> real list option" where
  "get_floats r h = (case get_obj r h of Some (FloatList xs) \<Rightarrow> Some xs | _ \<Rightarrow> None)"

definition get_terms :: "ref \<Rightarrow> heap \<Rightarrow> (plan \<Rightarrow> int option) option" where
  "get_terms r h = (case get_obj r h of Some (TermDict d) \<Rightarrow> Some d | _ \<Rightarrow> None)"

definition get_schedules :: "ref \<Rightarrow> heap \<Rightarrow> (plan \<Rightarrow> row list option) option" where
  "get_schedules r h = (case get_obj r h of Some (ScheduleDict d) \<Rightarrow> Some d | _ \<Rightarrow> None)"

text \<open>\<open>xs.append(v)\<close> changes the list that \<open>xs\<close> refers to.\<close>

definition append_int :: "ref \<Rightarrow> int \<Rightarrow> heap \<Rightarrow> heap option" where
  "append_int r v h =
     (case get_ints r h of None \<Rightarrow> None | Some xs \<Rightarrow> Some (h[r := IntList (xs @ [v])]))"

definition append_float :: "ref \<Rightarrow> real \<Rightarrow> heap \<Rightarrow> heap option" where
  "append_float r v h =
     (case get_floats r h of None \<Rightarrow> None | Some xs \<Rightarrow> Some (h[r := FloatList (xs @ [v])]))"

text \<open>\<open>d[name] = v\<close> changes the dictionary that \<open>d\<close> refers to.\<close>

definition set_term :: "ref \<Rightarrow> plan \<Rightarrow> int \<Rightarrow> heap \<Rightarrow> heap option" where
  "set_term r name v h =
     (case get_terms r h of None \<Rightarrow> None | Some d \<Rightarrow> Some (h[r := TermDict (d(name \<mapsto> v))]))"

definition set_schedule :: "ref \<Rightarrow> plan \<Rightarrow> row list \<Rightarrow> heap \<Rightarrow> heap option" where
  "set_schedule r name df h =
     (case get_schedules r h of None \<Rightarrow> None
      | Some d \<Rightarrow> Some (h[r := ScheduleDict (d(name \<mapsto> df))]))"

text \<open>
  \<open>calculatepayments(self)\<close> on the heap.  Its body reads \<open>self.amortization_period\<close>,
  \<open>self.principal\<close> and the four periodic rates of the object that \<open>self\<close> refers
  to, and binds local names to floats: \<open>n_months\<close>, the six payments, the tuple it
  returns.  None of its statements is an assignment to an attribute, an \<open>append\<close> or
  an item assignment, and it calls no method but the local function
  \<open>calculate_payment\<close>, whose body is two \<open>return\<close> statements; so the heap it returns
  is the heap it was given.  It fails when \<open>self\<close> does not refer to an instance.
\<close>

definition calculatepayments_heap :: "ref \<Rightarrow> heap \<Rightarrow> ((error + payments) \<times> heap) option" where
  "calculatepayments_heap self h =
     do { c \<leftarrow> get_instance self h;
          Some (calculatepayments c, h) }"

text \<open>
  \<open>for name, freq in frequencies.items(): total_term_payments[name] = self.term * freq\<close>;
  the keys of \<open>frequencies\<close> come in the order of \<open>payment_names\<close>, and
  \<open>term_payments\<close> is the reference of the dictionary \<open>total_term_payments\<close>.
\<close>

fun fill_total_term_payments :: "ref \<Rightarrow> ref \<Rightarrow> plan list \<Rightarrow> heap \<Rightarrow> heap option" where
  "fill_total_term_payments self term_payments [] h = Some h"
| "fill_total_term_payments self term_payments (name # names) h =
     do { c \<leftarrow> get_instance self h;
          h \<leftarrow> set_term term_payments name (term_years c * frequencies name) h;
          fill_total_term_payments self term_payments names h }"

text \<open>
  The loop over the periods, appending to the five column lists.  The numbers of a
  period are those of \<open>period_row\<close>; \<open>k\<close> counts the periods still to run.
\<close>

fun append_periods ::
  "real \<Rightarrow> real \<Rightarrow> int \<Rightarrow> nat \<Rightarrow> real \<Rightarrow> ref \<Rightarrow> ref \<Rightarrow> ref \<Rightarrow> ref \<Rightarrow> ref \<Rightarrow> heap \<Rightarrow> heap option"
where
  "append_periods Pmt Rate i 0 current_balance
     period beginning_balance interest principal_paid ending_balance h = Some h"
| "append_periods Pmt Rate i (Suc k) current_balance
     period beginning_balance interest principal_paid ending_balance h =
     (let r = period_row Pmt Rate i current_balance in
      do { h \<leftarrow> append_int period (Period r) h;
           h \<leftarrow> append_float beginning_balance (Beginning_Balance r) h;
           h \<leftarrow> append_float interest (Interest_Paid r) h;
           h \<leftarrow> append_float principal_paid (Principal_Paid r) h;
           h \<leftarrow> append_float ending_balance (Ending_Balance r) h;
           if Ending_Balance r \<le> 0 then Some h
           else append_periods Pmt Rate (i + 1) k (Ending_Balance r)
                  period beginning_balance interest principal_paid ending_balance h })"

text \<open>
  \<open>pd.DataFrame({...})\<close> from six columns: the lines of the frame, one per index.
  pandas raises for columns of different lengths.
\<close>

definition data_frame ::
  "int list \<Rightarrow> real list \<Rightarrow> real list \<Rightarrow> real list \<Rightarrow> real list \<Rightarrow> real list \<Rightarrow> row list option"
where
  "data_frame period beginning_balance payment interest principal_paid ending_balance =
     (if length beginning_balance = length period \<and> length payment = length period \<and>
         length interest = length period \<and> length principal_paid = length period \<and>
         length ending_balance = length period
      then Some (map (\<lambda>k. \<lparr> Period = period ! k,
                             Beginning_Balance = beginning_balance ! k,
                             Payment = payment ! k,
                             Interest_Paid = interest ! k,
                             Principal_Paid = principal_paid ! k,
                             Ending_Balance = ending_balance ! k \<rparr>)
                  [0..<length period])
      else None)"

text \<open>The body of \<open>for name in payment_names\<close>.\<close>

definition plan_body ::
  "ref \<Rightarrow> payments \<Rightarrow> (plan \<Rightarrow> real) \<Rightarrow> ref \<Rightarrow> ref \<Rightarrow> plan \<Rightarrow> heap \<Rightarrow> heap option" where
  "plan_body self pays rates_dict term_payments schedules name h =
     do { terms \<leftarrow> get_terms term_payments h;
          Term_Periods \<leftarrow> terms name;
          let Pmt = payment_info pays name;
          let Rate = rates_dict name;
          let (period, h) = new_obj (IntList []) h;
          let (beginning_balance, h) = new_obj (FloatList []) h;
          let (interest, h) = new_obj (FloatList []) h;
          let (principal_paid, h) = new_obj (FloatList []) h;
          let (ending_balance, h) = new_obj (FloatList []) h;
          c \<leftarrow> get_instance self h;
          h \<leftarrow> append_periods Pmt Rate 1 (nat Term_Periods) (principal c)
                 period beginning_balance interest principal_paid ending_balance h;
          ps \<leftarrow> get_ints period h;
          bs \<leftarrow> get_floats beginning_balance h;
          is \<leftarrow> get_floats interest h;
          pps \<leftarrow> get_floats principal_paid h;
          es \<leftarrow> get_floats ending_balance h;
          df \<leftarrow> data_frame ps bs (replicate (length ps) (np_round2 Pmt)) is pps es;
          set_schedule schedules name df h }"

fun plan_loop ::
  "ref \<Rightarrow> payments \<Rightarrow> (plan \<Rightarrow> real) \<Rightarrow> ref \<Rightarrow> ref \<Rightarrow> plan list \<Rightarrow> heap \<Rightarrow> heap option" where
  "plan_loop self pays rates_dict term_payments schedules [] h = Some h"
| "plan_loop self pays rates_dict term_payments schedules (name # names) h =
     do { h \<leftarrow> plan_body self pays rates_dict term_payments schedules name h;
          plan_loop self pays rates_dict term_payments schedules names h }"

text \<open>
  \<open>generate_schedule(self)\<close> on the heap.  It returns the reference of the dictionary
  \<open>schedules\<close>, or the error that \<open>self.calculatepayments()\<close> raised.
\<close>

definition generate_schedule_heap :: "ref \<Rightarrow> heap \<Rightarrow> ((error + ref) \<times> heap) option" where
  "generate_schedule_heap self h =
     do { (payments, h) \<leftarrow> calculatepayments_heap self h;
          case payments of
            Inl e \<Rightarrow> Some (Inl e, h)
          | Inr pays \<Rightarrow>
              do { let (schedules, h) = new_obj (ScheduleDict Map.empty) h;
                   c \<leftarrow> get_instance self h;
                   let rates_dict = rates c;
                   let (term_payments, h) = new_obj (TermDict Map.empty) h;
                   h \<leftarrow> fill_total_term_payments self term_payments payment_names h;
                   h \<leftarrow> plan_loop self pays rates_dict term_payments schedules
                          payment_names h;
                   Some (Inr schedules, h) } }"

subsection \<open>The annuity formula as the specification writes it\<close>

text \<open>
  \<open>payment = r==0 ? principal/n : principal * r*(1+r)^n / ((1+r)^n - 1)\<close>, for a real
  number \<open>n\<close> of periods; the theorems below compare \<open>calculate_payment\<close> with it.
\<close>

definition annuity_payment :: "real \<Rightarrow> real \<Rightarrow> real \<Rightarrow> real" where
  "annuity_payment p r n =
     (if r = 0 then p / n else p * (r * (1 + r) powr n) / ((1 + r) powr n - 1))"

section \<open>Auxiliary facts\<close>

subsection \<open>Errors and powers\<close>

lemma bind_err_Inr: "bind_err m f = Inr y \<longleftrightarrow> (\<exists>x. m = Inr x \<and> f x = Inr y)"
  by (cases m) (simp_all add: bind_err_def)

lemma bind_err_simps: "bind_err (Inr x) f = f x" "bind_err (Inl e) f = Inl e"
  by (simp_all add: bind_err_def)

lemma py_pow_nonneg_base:
  "0 \<le> x \<Longrightarrow> 0 < y \<Longrightarrow> py_pow x y = Inr (x powr y)"
  by (simp add: py_pow_def)

lemma py_pow_Inr_nonneg_base:
  "0 \<le> x \<Longrightarrow> py_pow x y = Inr z \<Longrightarrow> y \<noteq> 0 \<Longrightarrow> z = x powr y"
  by (auto simp: py_pow_def split: if_splits)

lemma py_pow_pos_base: "0 < x \<Longrightarrow> py_pow x y = Inr (x powr y)"
  by (simp add: py_pow_def)

lemma py_pow_neg_base_fraction:
  "x < 0 \<Longrightarrow> y \<noteq> of_int \<lfloor>y\<rfloor> \<Longrightarrow> py_pow x y = Inl ComplexResult"
  by (simp add: py_pow_def)

text \<open>The object that \<open>__init__\<close> builds when the base of the powers is not negative.\<close>

lemma init_ok:
  assumes "- 200 \<le> i"
  shows "init P i a t =
    Inr \<lparr> principal = P, interestrate = i / 100, amortization_period = a, term_years = t,
          monthlyinterestrate = (1 + i / 100 / 2) powr (2 / 12) - 1,
          semimonthlyinterestrate = (1 + i / 100 / 2) powr (2 / 24) - 1,
          biweeklyinterestrate = (1 + i / 100 / 2) powr (2 / 26) - 1,
          weeklyinterestrate = (1 + i / 100 / 2) powr (2 / 52) - 1 \<rparr>"
proof -
  have base: "0 \<le> 1 + i / 200" using assms by simp
  show ?thesis
    using base by (simp add: init_def py_pow_nonneg_base bind_err_simps)
qed

lemma init_error:
  assumes "i < - 200"
  shows "init P i a t = Inl ComplexResult"
proof -
  have base: "1 + i / 200 < 0" using assms by simp
  have "py_pow (1 + i / 200) (1 / 6) = Inl ComplexResult"
    by (rule py_pow_neg_base_fraction [OF base]) simp
  then show ?thesis
    by (simp add: init_def bind_err_simps)
qed

lemma init_Inr:
  assumes "init P i a t = Inr c"
  shows "- 200 \<le> i"
    and "c = \<lparr> principal = P, interestrate = i / 100, amortization_period = a, term_years = t,
          monthlyinterestrate = (1 + i / 100 / 2) powr (2 / 12) - 1,
          semimonthlyinterestrate = (1 + i / 100 / 2) powr (2 / 24) - 1,
          biweeklyinterestrate = (1 + i / 100 / 2) powr (2 / 26) - 1,
          weeklyinterestrate = (1 + i / 100 / 2) powr (2 / 52) - 1 \<rparr>"
proof -
  show i: "- 200 \<le> i"
  proof (rule ccontr)
    assume "\<not> - 200 \<le> i"
    then have "init P i a t = Inl ComplexResult" by (intro init_error) simp
    with assms show False by simp
  qed
  from init_ok [OF i, of P a t] assms
  show "c = \<lparr> principal = P, interestrate = i / 100, amortization_period = a, term_years = t,
          monthlyinterestrate = (1 + i / 100 / 2) powr (2 / 12) - 1,
          semimonthlyinterestrate = (1 + i / 100 / 2) powr (2 / 24) - 1,
          biweeklyinterestrate = (1 + i / 100 / 2) powr (2 / 26) - 1,
          weeklyinterestrate = (1 + i / 100 / 2) powr (2 / 52) - 1 \<rparr>"
    by simp
qed

lemma calculate_payment_Inr:
  assumes "calculate_payment p r n = Inr x" and "- 1 \<le> r"
  shows "x = annuity_payment p r n" and "n \<noteq> 0"
proof -
  have n: "n \<noteq> 0"
  proof
    assume "n = 0"
    then show False using assms
      by (auto simp: calculate_payment_def py_truediv_def py_pow_def bind_err_def
          split: if_splits)
  qed
  show "n \<noteq> 0" by (rule n)
  show "x = annuity_payment p r n"
  proof (cases "r = 0")
    case True
    then show ?thesis using assms
      by (auto simp: calculate_payment_def annuity_payment_def py_truediv_def split: if_splits)
  next
    case False
    from assms(2) have base: "0 \<le> 1 + r" by simp
    from assms(1) False obtain z where z: "py_pow (1 + r) n = Inr z"
      and d: "py_truediv (p * (r * z)) (z - 1) = Inr x"
      by (auto simp: calculate_payment_def bind_err_Inr)
    from py_pow_Inr_nonneg_base [OF base z n] have "z = (1 + r) powr n" .
    with d False show ?thesis
      by (auto simp: annuity_payment_def py_truediv_def split: if_splits)
  qed
qed

lemma calculate_payment_ok:
  assumes "- 1 \<le> r" and "0 < n"
  shows "calculate_payment p r n = Inr (annuity_payment p r n)"
proof (cases "r = 0")
  case True
  then show ?thesis using assms
    by (simp add: calculate_payment_def annuity_payment_def py_truediv_def)
next
  case False
  from assms(1) have base: "0 \<le> 1 + r" by simp
  have ne: "(1 + r) powr n \<noteq> 1"
  proof (cases "1 + r = 0")
    case True
    then show ?thesis by simp
  next
    case F: False
    with base have "0 < 1 + r" by simp
    moreover have "1 + r \<noteq> 1" using False by simp
    ultimately show ?thesis using assms(2) by simp
  qed
  show ?thesis using False ne
    by (simp add: calculate_payment_def annuity_payment_def
        py_pow_nonneg_base [OF base assms(2)] bind_err_simps py_truediv_def)
qed


subsection \<open>Rounding\<close>

lemma rint_of_int: "rint (of_int k) = k"
  by (simp add: rint_def)

lemma rint_mono: "x \<le> y \<Longrightarrow> rint x \<le> rint y"
proof -
  assume xy: "x \<le> y"
  have fl: "\<lfloor>x\<rfloor> \<le> \<lfloor>y\<rfloor>" using xy by (rule floor_mono)
  show ?thesis
  proof (cases "\<lfloor>x\<rfloor> = \<lfloor>y\<rfloor>")
    case True
    then show ?thesis using xy unfolding rint_def Let_def by auto
  next
    case False
    then have "\<lfloor>x\<rfloor> + 1 \<le> \<lfloor>y\<rfloor>" using fl by simp
    moreover have "rint x \<le> \<lfloor>x\<rfloor> + 1" unfolding rint_def Let_def by auto
    moreover have "\<lfloor>y\<rfloor> \<le> rint y" unfolding rint_def Let_def by auto
    ultimately show ?thesis by linarith
  qed
qed

lemma np_round2_idem: "np_round2 (np_round2 x) = np_round2 x"
  by (simp add: np_round2_def rint_of_int)

lemma np_round2_mono: "x \<le> y \<Longrightarrow> np_round2 x \<le> np_round2 y"
  by (simp add: np_round2_def rint_mono divide_right_mono)

lemma np_round2_0: "np_round2 0 = 0"
  by (simp add: np_round2_def rint_def)

lemma np_round2_nonneg: "0 \<le> x \<Longrightarrow> 0 \<le> np_round2 x"
  using np_round2_mono [of 0 x] by (simp add: np_round2_0)

subsection \<open>One period\<close>

lemma Period_period_row: "Period (period_row Pmt Rate i b) = i"
  by (simp add: period_row_def Let_def)

lemma Beginning_Balance_period_row:
  "Beginning_Balance (period_row Pmt Rate i b) = np_round2 b"
  by (simp add: period_row_def Let_def)

lemma Payment_period_row: "Payment (period_row Pmt Rate i b) = np_round2 Pmt"
  by (simp add: period_row_def Let_def)

lemma Interest_Paid_period_row:
  "Interest_Paid (period_row Pmt Rate i b) = np_round2 (b * Rate)"
  by (simp add: period_row_def Let_def)

lemma Principal_Paid_period_row:
  "Principal_Paid (period_row Pmt Rate i b) =
     (if b - np_round2 (Pmt - np_round2 (b * Rate)) < 0 then b
      else np_round2 (Pmt - np_round2 (b * Rate)))"
  by (simp add: period_row_def Let_def)

lemma Ending_Balance_period_row:
  "Ending_Balance (period_row Pmt Rate i b) =
     (if b - np_round2 (Pmt - np_round2 (b * Rate)) < 0 then 0
      else np_round2 (b - np_round2 (Pmt - np_round2 (b * Rate))))"
  by (simp add: period_row_def Let_def)

lemma Ending_Balance_nonneg: "0 \<le> Ending_Balance (period_row Pmt Rate i b)"
  by (simp add: Ending_Balance_period_row np_round2_nonneg)

lemma Ending_Balance_rounded:
  "np_round2 (Ending_Balance (period_row Pmt Rate i b)) = Ending_Balance (period_row Pmt Rate i b)"
  by (simp add: Ending_Balance_period_row np_round2_idem np_round2_0)

subsection \<open>The loop\<close>

lemma length_schedule_loop: "length (schedule_loop Pmt Rate i n b) \<le> n"
  by (induction n arbitrary: i b) (auto simp: Let_def)

lemma schedule_loop_nonempty: "0 < n \<Longrightarrow> schedule_loop Pmt Rate i n b \<noteq> []"
  by (cases n) (auto simp: Let_def)

lemma schedule_loop_nth:
  "k < length (schedule_loop Pmt Rate i n b) \<Longrightarrow>
   schedule_loop Pmt Rate i n b ! k =
     period_row Pmt Rate (i + int k)
       (if k = 0 then b else Ending_Balance (schedule_loop Pmt Rate i n b ! (k - 1)))"
proof (induction n arbitrary: i b k)
  case 0
  then show ?case by simp
next
  case (Suc n)
  let ?r = "period_row Pmt Rate i b"
  show ?case
  proof (cases k)
    case 0
    then show ?thesis by (simp add: Let_def)
  next
    case (Suc j)
    with Suc.prems have pos: "\<not> Ending_Balance ?r \<le> 0"
      by (auto simp: Let_def split: if_splits)
    then have unfold: "schedule_loop Pmt Rate i (Suc n) b =
        ?r # schedule_loop Pmt Rate (i + 1) n (Ending_Balance ?r)"
      by (simp add: Let_def)
    with Suc.prems Suc have j: "j < length (schedule_loop Pmt Rate (i + 1) n (Ending_Balance ?r))"
      by simp
    show ?thesis
      using Suc.IH [OF j] Suc unfold by (cases j) (simp_all add: add.assoc)
  qed
qed

lemma schedule_loop_inner_positive:
  "Suc k < length (schedule_loop Pmt Rate i n b) \<Longrightarrow>
   0 < Ending_Balance (schedule_loop Pmt Rate i n b ! k)"
proof (induction n arbitrary: i b k)
  case 0
  then show ?case by simp
next
  case (Suc n)
  let ?r = "period_row Pmt Rate i b"
  from Suc.prems have pos: "\<not> Ending_Balance ?r \<le> 0"
    by (auto simp: Let_def split: if_splits)
  then have unfold: "schedule_loop Pmt Rate i (Suc n) b =
      ?r # schedule_loop Pmt Rate (i + 1) n (Ending_Balance ?r)"
    by (simp add: Let_def)
  show ?case
  proof (cases k)
    case 0
    then show ?thesis using pos unfold by simp
  next
    case (Suc j)
    then show ?thesis using Suc.prems Suc.IH [of j "i + 1" "Ending_Balance ?r"] unfold by simp
  qed
qed

lemma schedule_loop_last:
  "schedule_loop Pmt Rate i n b \<noteq> [] \<Longrightarrow>
   Ending_Balance (last (schedule_loop Pmt Rate i n b)) = 0 \<or>
   (length (schedule_loop Pmt Rate i n b) = n \<and>
    0 < Ending_Balance (last (schedule_loop Pmt Rate i n b)))"
proof (induction n arbitrary: i b)
  case 0
  then show ?case by simp
next
  case (Suc n)
  let ?r = "period_row Pmt Rate i b"
  have nonneg: "0 \<le> Ending_Balance ?r" by (rule Ending_Balance_nonneg)
  show ?case
  proof (cases "Ending_Balance ?r \<le> 0")
    case True
    then show ?thesis using nonneg by (simp add: Let_def)
  next
    case False
    then have unfold: "schedule_loop Pmt Rate i (Suc n) b =
        ?r # schedule_loop Pmt Rate (i + 1) n (Ending_Balance ?r)"
      by (simp add: Let_def)
    show ?thesis
    proof (cases "schedule_loop Pmt Rate (i + 1) n (Ending_Balance ?r) = []")
      case True
      then have "n = 0" using schedule_loop_nonempty [of n Pmt Rate "i + 1" "Ending_Balance ?r"] by auto
      then show ?thesis using False unfold by simp
    next
      case nonempty: False
      then show ?thesis using Suc.IH [OF nonempty] unfold by simp
    qed
  qed
qed

lemma schedule_loop_rows:
  "r \<in> set (schedule_loop Pmt Rate i n b) \<Longrightarrow> \<exists>j b'. r = period_row Pmt Rate j b'"
  by (induction n arbitrary: i b) (auto simp: Let_def split: if_splits)

subsection \<open>The payments of an object built by the constructor\<close>

lemma init_rates_ge:
  assumes "init P i a t = Inr c"
  shows "- 1 \<le> monthlyinterestrate c" "- 1 \<le> semimonthlyinterestrate c"
    "- 1 \<le> biweeklyinterestrate c" "- 1 \<le> weeklyinterestrate c"
  by (simp_all add: init_Inr(2) [OF assms])

lemma init_fields:
  assumes "init P i a t = Inr c"
  shows "principal c = P" "interestrate c = i / 100" "amortization_period c = a"
    "term_years c = t"
  by (simp_all add: init_Inr(2) [OF assms])

lemma calculatepayments_Inr:
  assumes "calculatepayments c = Inr pays"
    and "- 1 \<le> monthlyinterestrate c" "- 1 \<le> semimonthlyinterestrate c"
      "- 1 \<le> biweeklyinterestrate c" "- 1 \<le> weeklyinterestrate c"
  shows "pays =
    (annuity_payment (principal c) (monthlyinterestrate c) (amortization_period c * 12),
     annuity_payment (principal c) (semimonthlyinterestrate c) (amortization_period c * 12 * 2),
     annuity_payment (principal c) (biweeklyinterestrate c) (amortization_period c * 12 * (26 / 12)),
     annuity_payment (principal c) (weeklyinterestrate c) (amortization_period c * 12 * (52 / 12)),
     annuity_payment (principal c) (monthlyinterestrate c) (amortization_period c * 12) / 2,
     annuity_payment (principal c) (monthlyinterestrate c) (amortization_period c * 12) / 4)"
    and "amortization_period c \<noteq> 0"
proof -
  from assms(1) obtain m s b w where
    m: "calculate_payment (principal c) (monthlyinterestrate c) (amortization_period c * 12) = Inr m"
    and s: "calculate_payment (principal c) (semimonthlyinterestrate c) (amortization_period c * 12 * 2) = Inr s"
    and b: "calculate_payment (principal c) (biweeklyinterestrate c) (amortization_period c * 12 * (26 / 12)) = Inr b"
    and w: "calculate_payment (principal c) (weeklyinterestrate c) (amortization_period c * 12 * (52 / 12)) = Inr w"
    and pays: "pays = (m, s, b, w, m / 2, m / 4)"
    unfolding calculatepayments_def Let_def bind_err_Inr by auto
  from calculate_payment_Inr [OF m assms(2)] calculate_payment_Inr(1) [OF s assms(3)]
    calculate_payment_Inr(1) [OF b assms(4)] calculate_payment_Inr(1) [OF w assms(5)] pays
  show "pays =
    (annuity_payment (principal c) (monthlyinterestrate c) (amortization_period c * 12),
     annuity_payment (principal c) (semimonthlyinterestrate c) (amortization_period c * 12 * 2),
     annuity_payment (principal c) (biweeklyinterestrate c) (amortization_period c * 12 * (26 / 12)),
     annuity_payment (principal c) (weeklyinterestrate c) (amortization_period c * 12 * (52 / 12)),
     annuity_payment (principal c) (monthlyinterestrate c) (amortization_period c * 12) / 2,
     annuity_payment (principal c) (monthlyinterestrate c) (amortization_period c * 12) / 4)"
    and "amortization_period c \<noteq> 0"
    by simp_all
qed

lemma calculatepayments_ok:
  assumes "0 < amortization_period c"
    and "- 1 \<le> monthlyinterestrate c" "- 1 \<le> semimonthlyinterestrate c"
      "- 1 \<le> biweeklyinterestrate c" "- 1 \<le> weeklyinterestrate c"
  shows "calculatepayments c = Inr
    (annuity_payment (principal c) (monthlyinterestrate c) (amortization_period c * 12),
     annuity_payment (principal c) (semimonthlyinterestrate c) (amortization_period c * 12 * 2),
     annuity_payment (principal c) (biweeklyinterestrate c) (amortization_period c * 12 * (26 / 12)),
     annuity_payment (principal c) (weeklyinterestrate c) (amortization_period c * 12 * (52 / 12)),
     annuity_payment (principal c) (monthlyinterestrate c) (amortization_period c * 12) / 2,
     annuity_payment (principal c) (monthlyinterestrate c) (amortization_period c * 12) / 4)"
proof -
  have n: "0 < amortization_period c * 12" "0 < amortization_period c * 12 * 2"
    "0 < amortization_period c * 12 * (26 / 12)" "0 < amortization_period c * 12 * (52 / 12)"
    using assms(1) by simp_all
  show ?thesis
    unfolding calculatepayments_def Let_def
    by (simp only: calculate_payment_ok [OF assms(2) n(1)] calculate_payment_ok [OF assms(3) n(2)]
        calculate_payment_ok [OF assms(4) n(3)] calculate_payment_ok [OF assms(5) n(4)]
        bind_err_simps)
qed

lemma generate_schedule_Inr:
  "generate_schedule c = Inr schedules \<longleftrightarrow>
     (\<exists>pays. calculatepayments c = Inr pays \<and> schedules = plan_schedule c pays)"
  by (auto simp: generate_schedule_def bind_err_Inr)

lemma plan_schedule_nth:
  assumes "k < length (plan_schedule c pays name)"
  shows "plan_schedule c pays name ! k =
    period_row (payment_info pays name) (rates c name) (1 + int k)
      (if k = 0 then principal c else Ending_Balance (plan_schedule c pays name ! (k - 1)))"
  using assms unfolding plan_schedule_def by (rule schedule_loop_nth)

lemma plan_schedule_length:
  "int (length (plan_schedule c pays name)) \<le> max 0 (term_years c * frequencies name)"
proof -
  have "length (plan_schedule c pays name) \<le> nat (term_years c * frequencies name)"
    unfolding plan_schedule_def total_term_payments_def by (rule length_schedule_loop)
  then show ?thesis by linarith
qed

lemma frequencies_pos: "0 < frequencies name"
  by (cases name) simp_all

subsection \<open>Evaluating a schedule\<close>

lemma rint_eval:
  "rint x =
     (if x - of_int \<lfloor>x\<rfloor> < 1 / 2 then \<lfloor>x\<rfloor>
      else if 1 / 2 < x - of_int \<lfloor>x\<rfloor> then \<lfloor>x\<rfloor> + 1
      else if even \<lfloor>x\<rfloor> then \<lfloor>x\<rfloor> else \<lfloor>x\<rfloor> + 1)"
  by (simp add: rint_def Let_def)

lemma period_row_eval:
  "period_row Pmt Rate i b =
     \<lparr> Period = i, Beginning_Balance = np_round2 b, Payment = np_round2 Pmt,
       Interest_Paid = np_round2 (b * Rate),
       Principal_Paid =
         (if b - np_round2 (Pmt - np_round2 (b * Rate)) < 0 then b
          else np_round2 (Pmt - np_round2 (b * Rate))),
       Ending_Balance =
         (if b - np_round2 (Pmt - np_round2 (b * Rate)) < 0 then 0
          else np_round2 (b - np_round2 (Pmt - np_round2 (b * Rate)))) \<rparr>"
  by (simp add: period_row_def Let_def)

lemma schedule_loop_Suc:
  "schedule_loop Pmt Rate i (Suc k) b =
     (if Ending_Balance (period_row Pmt Rate i b) \<le> 0 then [period_row Pmt Rate i b]
      else period_row Pmt Rate i b #
           schedule_loop Pmt Rate (i + 1) k (Ending_Balance (period_row Pmt Rate i b)))"
  by (simp add: Let_def)

lemma schedule_loop_numeral:
  "schedule_loop Pmt Rate i (numeral n) b =
     (if Ending_Balance (period_row Pmt Rate i b) \<le> 0 then [period_row Pmt Rate i b]
      else period_row Pmt Rate i b #
           schedule_loop Pmt Rate (i + 1) (pred_numeral n)
             (Ending_Balance (period_row Pmt Rate i b)))"
  by (simp add: numeral_eq_Suc Let_def)

lemmas loop_eval =
  schedule_loop_Suc schedule_loop_numeral period_row_eval np_round2_def rint_eval

subsection \<open>A run at a rate of zero\<close>

text \<open>
  Principal 200, rate 0 percent, one year of amortization, one year of term: the
  monthly payment is \<open>200 / 12\<close>, each row pays 16.67, and the twelfth row pays the
  16.63 that are left.
\<close>

lemma zero_rate_monthly:
  "schedule_loop (50 / 3) 0 1 12 200 =
       [\<lparr>Period = 1, Beginning_Balance = 200, Payment = 16.67, Interest_Paid = 0,
          Principal_Paid = 16.67, Ending_Balance = 183.33\<rparr>,
        \<lparr>Period = 2, Beginning_Balance = 183.33, Payment = 16.67, Interest_Paid = 0,
          Principal_Paid = 16.67, Ending_Balance = 166.66\<rparr>,
        \<lparr>Period = 3, Beginning_Balance = 166.66, Payment = 16.67, Interest_Paid = 0,
          Principal_Paid = 16.67, Ending_Balance = 149.99\<rparr>,
        \<lparr>Period = 4, Beginning_Balance = 149.99, Payment = 16.67, Interest_Paid = 0,
          Principal_Paid = 16.67, Ending_Balance = 133.32\<rparr>,
        \<lparr>Period = 5, Beginning_Balance = 133.32, Payment = 16.67, Interest_Paid = 0,
          Principal_Paid = 16.67, Ending_Balance = 116.65\<rparr>,
        \<lparr>Period = 6, Beginning_Balance = 116.65, Payment = 16.67, Interest_Paid = 0,
          Principal_Paid = 16.67, Ending_Balance = 99.98\<rparr>,
        \<lparr>Period = 7, Beginning_Balance = 99.98, Payment = 16.67, Interest_Paid = 0,
          Principal_Paid = 16.67, Ending_Balance = 83.31\<rparr>,
        \<lparr>Period = 8, Beginning_Balance = 83.31, Payment = 16.67, Interest_Paid = 0,
          Principal_Paid = 16.67, Ending_Balance = 66.64\<rparr>,
        \<lparr>Period = 9, Beginning_Balance = 66.64, Payment = 16.67, Interest_Paid = 0,
          Principal_Paid = 16.67, Ending_Balance = 49.97\<rparr>,
        \<lparr>Period = 10, Beginning_Balance = 49.97, Payment = 16.67, Interest_Paid = 0,
          Principal_Paid = 16.67, Ending_Balance = 33.3\<rparr>,
        \<lparr>Period = 11, Beginning_Balance = 33.3, Payment = 16.67, Interest_Paid = 0,
          Principal_Paid = 16.67, Ending_Balance = 16.63\<rparr>,
        \<lparr>Period = 12, Beginning_Balance = 16.63, Payment = 16.67, Interest_Paid = 0,
          Principal_Paid = 16.63, Ending_Balance = 0\<rparr>]"
  by (simp add: loop_eval del: schedule_loop.simps(2))

lemma zero_rate_run:
  "\<exists>c pays.
     init 200 0 1 1 = Inr c \<and> calculatepayments c = Inr pays \<and>
     generate_schedule c = Inr (plan_schedule c pays) \<and>
     principal c = 200 \<and> term_years c = 1 \<and> amortization_period c = 1 \<and>
     monthlyinterestrate c = 0 \<and> payment_info pays Monthly = 50 / 3 \<and>
     payment_info pays Rapid_Bi_Weekly = 25 / 3 \<and>
     plan_schedule c pays Monthly = schedule_loop (50 / 3) 0 1 12 200"
proof -
  let ?c = "\<lparr> principal = 200, interestrate = 0, amortization_period = 1, term_years = 1,
    monthlyinterestrate = 0, semimonthlyinterestrate = 0, biweeklyinterestrate = 0,
    weeklyinterestrate = 0 \<rparr>"
  let ?p = "(50 / 3, 25 / 3, 100 / 13, 50 / 13, 25 / 3, 25 / 6) :: payments"
  have i: "init 200 0 1 1 = Inr ?c"
    by (simp add: init_def py_pow_def bind_err_simps)
  have p: "calculatepayments ?c = Inr ?p"
    by (simp add: calculatepayments_def calculate_payment_def py_truediv_def bind_err_simps)
  have g: "generate_schedule ?c = Inr (plan_schedule ?c ?p)"
    by (simp add: generate_schedule_def p bind_err_simps)
  have m: "plan_schedule ?c ?p Monthly = schedule_loop (50 / 3) 0 1 12 200"
    by (simp add: plan_schedule_def total_term_payments_def del: schedule_loop.simps(2))
  show ?thesis
    by (rule exI [of _ ?c], rule exI [of _ ?p]) (simp only: i p g m, simp)
qed

subsection \<open>Rounding stays within half a cent\<close>

lemma rint_le: "real_of_int (rint x) \<le> x + 1 / 2"
  unfolding rint_def Let_def by (auto; linarith)

lemma rint_ge: "x - 1 / 2 \<le> real_of_int (rint x)"
  unfolding rint_def Let_def by (auto; linarith)

lemma np_round2_le: "np_round2 x \<le> x + 1 / 200"
  using rint_le [of "x * 100"] by (simp add: np_round2_def field_simps)

lemma np_round2_minus_half_cent: "np_round2 (- (1 / 200)) = 0"
  by (simp add: np_round2_def rint_eval)

lemma np_round2_ge_zero: "- (1 / 200) \<le> x \<Longrightarrow> 0 \<le> np_round2 x"
  using np_round2_mono [of "- (1 / 200)" x] by (simp add: np_round2_minus_half_cent)

lemma np_round2_nonpos: "x \<le> 0 \<Longrightarrow> np_round2 x \<le> 0"
  using np_round2_mono [of x 0] by (simp add: np_round2_0)

subsection \<open>When a period cannot raise the balance\<close>

lemma principal_portion_nonneg_rate:
  assumes "0 \<le> Rate" and "B * Rate \<le> Pmt" and "x \<le> B"
  shows "0 \<le> np_round2 (Pmt - np_round2 (x * Rate))"
proof -
  have "x * Rate \<le> B * Rate" using assms(1,3) by (rule mult_right_mono [rotated])
  then have "np_round2 (x * Rate) \<le> np_round2 (B * Rate)" by (rule np_round2_mono)
  also have "\<dots> \<le> B * Rate + 1 / 200" by (rule np_round2_le)
  also have "\<dots> \<le> Pmt + 1 / 200" using assms(2) by simp
  finally have "- (1 / 200) \<le> Pmt - np_round2 (x * Rate)" by simp
  then show ?thesis by (rule np_round2_ge_zero)
qed

lemma principal_portion_nonpos_rate:
  assumes "Rate \<le> 0" and "0 \<le> Pmt" and "0 \<le> x"
  shows "0 \<le> np_round2 (Pmt - np_round2 (x * Rate))"
proof -
  have "x * Rate \<le> 0" using assms(1,3) by (simp add: mult_nonneg_nonpos)
  then have "np_round2 (x * Rate) \<le> 0" by (rule np_round2_nonpos)
  then have "0 \<le> Pmt - np_round2 (x * Rate)" using assms(2) by simp
  then show ?thesis by (rule np_round2_nonneg)
qed

lemma period_row_ending_le:
  assumes "np_round2 b = b" and "0 \<le> b"
    and "0 \<le> np_round2 (Pmt - np_round2 (b * Rate))"
  shows "Ending_Balance (period_row Pmt Rate i b) \<le> b"
proof -
  have "np_round2 (b - np_round2 (Pmt - np_round2 (b * Rate))) \<le> np_round2 b"
    using assms(3) by (intro np_round2_mono) simp
  then show ?thesis using assms(1,2) by (simp add: Ending_Balance_period_row)
qed

lemma schedule_loop_nonincreasing:
  assumes "np_round2 b = b" and "0 \<le> b"
    and "\<And>x. 0 \<le> x \<Longrightarrow> x \<le> b \<Longrightarrow> 0 \<le> np_round2 (Pmt - np_round2 (x * Rate))"
    and "k < length (schedule_loop Pmt Rate i n b)"
  shows "Ending_Balance (schedule_loop Pmt Rate i n b ! k) \<le>
    (if k = 0 then b else Ending_Balance (schedule_loop Pmt Rate i n b ! (k - 1)))"
  using assms
proof (induction n arbitrary: i b k)
  case 0
  then show ?case by simp
next
  case (Suc n)
  let ?r = "period_row Pmt Rate i b"
  have first: "Ending_Balance ?r \<le> b"
    using Suc.prems(1,2) Suc.prems(3) [of b] Suc.prems(2) by (intro period_row_ending_le) simp_all
  show ?case
  proof (cases k)
    case 0
    then show ?thesis using first by (simp add: Let_def)
  next
    case (Suc j)
    with Suc.prems(4) have pos: "\<not> Ending_Balance ?r \<le> 0"
      by (auto simp: Let_def split: if_splits)
    then have unfold: "schedule_loop Pmt Rate i (Suc n) b =
        ?r # schedule_loop Pmt Rate (i + 1) n (Ending_Balance ?r)"
      by (simp add: Let_def)
    have j: "j < length (schedule_loop Pmt Rate (i + 1) n (Ending_Balance ?r))"
      using Suc.prems(4) Suc unfold by simp
    have "Ending_Balance (schedule_loop Pmt Rate (i + 1) n (Ending_Balance ?r) ! j) \<le>
      (if j = 0 then Ending_Balance ?r
       else Ending_Balance (schedule_loop Pmt Rate (i + 1) n (Ending_Balance ?r) ! (j - 1)))"
    proof (rule Suc.IH [OF _ _ _ j])
      show "np_round2 (Ending_Balance ?r) = Ending_Balance ?r" by (rule Ending_Balance_rounded)
      show "0 \<le> Ending_Balance ?r" by (rule Ending_Balance_nonneg)
      fix x :: real
      assume "0 \<le> x" "x \<le> Ending_Balance ?r"
      then show "0 \<le> np_round2 (Pmt - np_round2 (x * Rate))"
        using first by (intro Suc.prems(3)) simp_all
    qed
    then show ?thesis using Suc unfold by (cases j) simp_all
  qed
qed

subsection \<open>Each plan's payment covers its interest\<close>

lemma annuity_ge_interest:
  assumes "0 \<le> p" and "0 \<le> r" and "0 < n"
  shows "p * r \<le> annuity_payment p r n"
proof (cases "r = 0")
  case True
  then show ?thesis using assms by (simp add: annuity_payment_def)
next
  case False
  then have r: "0 < r" using assms(2) by simp
  have x: "1 < (1 + r) powr n" using r assms(3) by (intro gr_one_powr) simp_all
  have "p * r * ((1 + r) powr n - 1) \<le> p * r * (1 + r) powr n"
    using assms(1) r by (intro mult_left_mono) simp_all
  then have "p * r \<le> p * r * (1 + r) powr n / ((1 + r) powr n - 1)"
    using x by (simp add: pos_le_divide_eq)
  then show ?thesis using False by (simp add: annuity_payment_def mult.assoc)
qed

lemma annuity_nonneg:
  assumes "0 \<le> p" and "- 1 \<le> r" and "r \<le> 0" and "0 < n"
  shows "0 \<le> annuity_payment p r n"
proof (cases "r = 0")
  case True
  then show ?thesis using assms by (simp add: annuity_payment_def)
next
  case False
  then have r: "r < 0" using assms(3) by simp
  have "(1 + r) powr n < 1"
  proof (cases "1 + r = 0")
    case True
    then show ?thesis by simp
  next
    case F: False
    then have "0 < 1 + r" "1 + r < 1" using assms(2) r by simp_all
    then show ?thesis using assms(4) by (simp add: powr01_less_one)
  qed
  then have d: "(1 + r) powr n - 1 < 0" by simp
  have "p * (r * (1 + r) powr n) \<le> 0"
    using assms(1) r by (intro mult_nonneg_nonpos mult_nonpos_nonneg) simp_all
  then have "0 \<le> p * (r * (1 + r) powr n) / ((1 + r) powr n - 1)"
    using d by (simp add: divide_nonpos_neg)
  then show ?thesis using False by (simp add: annuity_payment_def)
qed

lemma rapid_biweekly_rate:
  fixes x :: real
  assumes "1 \<le> x"
  shows "2 * (x powr (2 / 26) - 1) \<le> x powr (2 / 12) - 1"
proof -
  let ?u = "x powr (2 / 26)"
  have u: "1 \<le> ?u" using assms by (simp add: ge_one_powr_ge_zero)
  have "0 \<le> (?u - 1)\<^sup>2" by simp
  then have "2 * (?u - 1) \<le> ?u\<^sup>2 - 1" by (simp add: power2_eq_square algebra_simps)
  also have "?u\<^sup>2 = ?u powr 2" using u by simp
  also have "?u powr 2 \<le> ?u powr (13 / 6)" using u by (intro powr_mono) simp_all
  also have "?u powr (13 / 6) = x powr (2 / 12)" by (simp add: powr_powr)
  finally show ?thesis by simp
qed

lemma rapid_weekly_rate:
  fixes x :: real
  assumes "1 \<le> x"
  shows "4 * (x powr (2 / 52) - 1) \<le> x powr (2 / 12) - 1"
proof -
  let ?w = "x powr (2 / 52)"
  have w: "1 \<le> ?w" using assms by (simp add: ge_one_powr_ge_zero)
  have "1 + real 4 * (?w - 1) \<le> (1 + (?w - 1)) ^ 4"
    using w by (intro Bernoulli_inequality) simp
  then have "4 * (?w - 1) \<le> ?w ^ 4 - 1" by simp
  also have "?w ^ 4 = ?w powr 4" using w by simp
  also have "?w powr 4 \<le> ?w powr (13 / 3)" using w by (intro powr_mono) simp_all
  also have "?w powr (13 / 3) = x powr (2 / 12)" by (simp add: powr_powr)
  finally show ?thesis by simp
qed

lemma plan_principal_portion_nonneg:
  assumes c: "init P i a t = Inr c" and p: "calculatepayments c = Inr pays"
    and P: "0 \<le> P" and a: "0 < a" and x: "0 \<le> x" "x \<le> P"
  shows "0 \<le> np_round2 (payment_info pays name - np_round2 (x * rates c name))"
proof -
  define base where "base = 1 + i / 100 / 2"
  have base: "0 \<le> base" using init_Inr(1) [OF c] by (simp add: base_def)
  note ge = init_rates_ge [OF c]
  note f = init_fields [OF c]
  have r: "monthlyinterestrate c = base powr (2 / 12) - 1"
    "semimonthlyinterestrate c = base powr (2 / 24) - 1"
    "biweeklyinterestrate c = base powr (2 / 26) - 1"
    "weeklyinterestrate c = base powr (2 / 52) - 1"
    unfolding base_def by (simp_all add: init_Inr(2) [OF c])
  note pays = calculatepayments_Inr(1) [OF p ge, unfolded f]
  have n: "0 < a * 12" "0 < a * 12 * 2" "0 < a * 12 * (26 / 12)" "0 < a * 12 * (52 / 12)"
    using a by simp_all
  let ?M = "annuity_payment P (monthlyinterestrate c) (a * 12)"
  have info: "payment_info pays Monthly = ?M"
    "payment_info pays Semi_Monthly =
       annuity_payment P (semimonthlyinterestrate c) (a * 12 * 2)"
    "payment_info pays Bi_Weekly =
       annuity_payment P (biweeklyinterestrate c) (a * 12 * (26 / 12))"
    "payment_info pays Weekly =
       annuity_payment P (weeklyinterestrate c) (a * 12 * (52 / 12))"
    "payment_info pays Rapid_Bi_Weekly = ?M / 2"
    "payment_info pays Rapid_Weekly = ?M / 4"
    using pays by simp_all
  show ?thesis
  proof (cases "1 \<le> base")
    case True
    have pos: "0 \<le> monthlyinterestrate c" "0 \<le> semimonthlyinterestrate c"
      "0 \<le> biweeklyinterestrate c" "0 \<le> weeklyinterestrate c"
      using True by (simp_all add: r ge_one_powr_ge_zero)
    have M: "P * monthlyinterestrate c \<le> ?M"
      using P pos(1) n(1) by (rule annuity_ge_interest)
    have rb: "P * biweeklyinterestrate c \<le> ?M / 2"
    proof -
      have "P * (2 * biweeklyinterestrate c) \<le> P * monthlyinterestrate c"
        unfolding r using P rapid_biweekly_rate [OF True] by (intro mult_left_mono)
      with M show ?thesis by simp
    qed
    have rw: "P * weeklyinterestrate c \<le> ?M / 4"
    proof -
      have "P * (4 * weeklyinterestrate c) \<le> P * monthlyinterestrate c"
        unfolding r using P rapid_weekly_rate [OF True] by (intro mult_left_mono)
      with M show ?thesis by simp
    qed
    have "0 \<le> rates c name \<and> P * rates c name \<le> payment_info pays name"
    proof (cases name)
      case Monthly
      show ?thesis unfolding Monthly rates.simps info using pos(1) M by (rule conjI)
    next
      case Semi_Monthly
      show ?thesis unfolding Semi_Monthly rates.simps info
        using pos(2) annuity_ge_interest [OF P pos(2) n(2)] by (rule conjI)
    next
      case Bi_Weekly
      show ?thesis unfolding Bi_Weekly rates.simps info
        using pos(3) annuity_ge_interest [OF P pos(3) n(3)] by (rule conjI)
    next
      case Weekly
      show ?thesis unfolding Weekly rates.simps info
        using pos(4) annuity_ge_interest [OF P pos(4) n(4)] by (rule conjI)
    next
      case Rapid_Bi_Weekly
      show ?thesis unfolding Rapid_Bi_Weekly rates.simps info using pos(3) rb by (rule conjI)
    next
      case Rapid_Weekly
      show ?thesis unfolding Rapid_Weekly rates.simps info using pos(4) rw by (rule conjI)
    qed
    then show ?thesis using x(2) by (intro principal_portion_nonneg_rate) simp_all
  next
    case False
    then have b1: "base \<le> 1" by simp
    have neg: "monthlyinterestrate c \<le> 0" "semimonthlyinterestrate c \<le> 0"
      "biweeklyinterestrate c \<le> 0" "weeklyinterestrate c \<le> 0"
      using base b1 by (simp_all add: r powr_le1)
    have M: "0 \<le> ?M" using P ge(1) neg(1) n(1) by (rule annuity_nonneg)
    have M2: "0 \<le> ?M / 2" "0 \<le> ?M / 4" using M by simp_all
    have "rates c name \<le> 0 \<and> 0 \<le> payment_info pays name"
    proof (cases name)
      case Monthly
      show ?thesis unfolding Monthly rates.simps info using neg(1) M by (rule conjI)
    next
      case Semi_Monthly
      show ?thesis unfolding Semi_Monthly rates.simps info
        using neg(2) annuity_nonneg [OF P ge(2) neg(2) n(2)] by (rule conjI)
    next
      case Bi_Weekly
      show ?thesis unfolding Bi_Weekly rates.simps info
        using neg(3) annuity_nonneg [OF P ge(3) neg(3) n(3)] by (rule conjI)
    next
      case Weekly
      show ?thesis unfolding Weekly rates.simps info
        using neg(4) annuity_nonneg [OF P ge(4) neg(4) n(4)] by (rule conjI)
    next
      case Rapid_Bi_Weekly
      show ?thesis unfolding Rapid_Bi_Weekly rates.simps info using neg(3) M2(1) by (rule conjI)
    next
      case Rapid_Weekly
      show ?thesis unfolding Rapid_Weekly rates.simps info using neg(4) M2(2) by (rule conjI)
    qed
    then show ?thesis using x(1) by (intro principal_portion_nonpos_rate) simp_all
  qed
qed

lemma np_round2_cents: "np_round2 (real_of_int m / 100) = real_of_int m / 100"
  by (simp add: np_round2_def rint_of_int)

subsection \<open>A run whose balance rises\<close>

lemma sixth_root_729: "(729 :: real) powr (1 / 6) = 3"
proof -
  have "(729 :: real) = 3 powr 6" by simp
  then have "(729 :: real) powr (1 / 6) = (3 powr 6) powr (1 / 6)" by simp
  also have "\<dots> = 3" by (simp only: powr_powr) simp
  finally show ?thesis .
qed

text \<open>
  The first two monthly rows for a principal of 100.0051 at a monthly rate of 2 and a
  payment of \<open>100.0051 * 2 * 3^12 / (3^12 - 1)\<close>, whatever number of periods follows.
\<close>

lemma rising_balance_rows:
  "schedule_loop (40882161807 / 204400000) 2 1 (Suc (Suc n)) 100.0051 =
     \<lparr>Period = 1, Beginning_Balance = 100.01, Payment = 200.01, Interest_Paid = 200.01,
      Principal_Paid = 0, Ending_Balance = 100.01\<rparr> #
     \<lparr>Period = 2, Beginning_Balance = 100.01, Payment = 200.01, Interest_Paid = 200.02,
      Principal_Paid = - 0.01, Ending_Balance = 100.02\<rparr> #
     schedule_loop (40882161807 / 204400000) 2 3 n 100.02"
  by (simp add: schedule_loop_Suc period_row_eval np_round2_def rint_eval
      del: schedule_loop.simps(2))

subsection \<open>A run at one percent a month\<close>

text \<open>
  A yearly rate of 12.3040301202 percent, compounded twice a year, is exactly one
  percent a month: \<open>1 + 0.123040301202 / 2 = 1.01^6\<close>.  For a principal of 1000
  amortized over one year the monthly payment is \<open>10 * 1.01^12 / (1.01^12 - 1)\<close>, about
  88.85, and the first row pays 10.00 of interest and 78.85 of principal.
\<close>

lemma sixth_root_one_percent: "(1.061520150601 :: real) powr (1 / 6) = 1.01"
proof -
  have e: "(1.061520150601 :: real) = 1.01 powr 6" by (simp add: power_divide)
  have "((1.01 :: real) powr 6) powr (1 / 6) = 1.01" by (simp only: powr_powr) simp
  then show ?thesis by (simp only: e [symmetric])
qed

lemma one_percent_payment:
  "annuity_payment 1000 0.01 12 = 11268250301319697206612010 / 126825030131969720661201"
  by (simp add: annuity_payment_def power_divide)

lemma one_percent_first_row:
  "schedule_loop (11268250301319697206612010 / 126825030131969720661201) 0.01 1 (Suc n) 1000 =
     \<lparr>Period = 1, Beginning_Balance = 1000, Payment = 88.85, Interest_Paid = 10,
      Principal_Paid = 78.85, Ending_Balance = 921.15\<rparr> #
     schedule_loop (11268250301319697206612010 / 126825030131969720661201) 0.01 2 n 921.15"
  by (simp add: schedule_loop_Suc period_row_eval np_round2_def rint_eval
      del: schedule_loop.simps(2))

lemma one_percent_run:
  "\<exists>c pays.
     init 1000 12.3040301202 1 1 = Inr c \<and> calculatepayments c = Inr pays \<and>
     generate_schedule c = Inr (plan_schedule c pays) \<and>
     principal c = 1000 \<and> interestrate c = 0.123040301202 \<and>
     monthlyinterestrate c = 0.01 \<and>
     payment_info pays Monthly = 11268250301319697206612010 / 126825030131969720661201 \<and>
     payment_info pays Monthly = annuity_payment 1000 0.01 12 \<and>
     plan_schedule c pays Monthly =
       \<lparr>Period = 1, Beginning_Balance = 1000, Payment = 88.85, Interest_Paid = 10,
        Principal_Paid = 78.85, Ending_Balance = 921.15\<rparr> #
       schedule_loop (11268250301319697206612010 / 126825030131969720661201) 0.01 2 11 921.15"
proof -
  have "- 200 \<le> (12.3040301202 :: real)" by simp
  from init_ok [OF this, of 1000 1 1] obtain c where
    c: "init 1000 12.3040301202 1 1 = Inr c" by blast
  note f = init_fields [OF c]
  have ir: "interestrate c = 0.123040301202" by (simp add: f)
  have r: "monthlyinterestrate c = 0.01"
    using sixth_root_one_percent by (simp add: init_Inr(2) [OF c])
  have a: "0 < amortization_period c" by (simp add: f)
  from calculatepayments_ok [OF a init_rates_ge [OF c]] obtain pays where
    p: "calculatepayments c = Inr pays"
    and m: "payment_info pays Monthly =
      annuity_payment (principal c) (monthlyinterestrate c) (amortization_period c * 12)"
    by simp
  have pa: "payment_info pays Monthly = annuity_payment 1000 0.01 12"
    unfolding m r f by simp
  have pm: "payment_info pays Monthly =
      11268250301319697206612010 / 126825030131969720661201"
    unfolding pa by (rule one_percent_payment)
  have g: "generate_schedule c = Inr (plan_schedule c pays)"
    by (simp add: generate_schedule_Inr p)
  have n: "nat (total_term_payments c Monthly) = Suc 11"
    by (simp add: total_term_payments_def f)
  have s: "plan_schedule c pays Monthly =
       \<lparr>Period = 1, Beginning_Balance = 1000, Payment = 88.85, Interest_Paid = 10,
        Principal_Paid = 78.85, Ending_Balance = 921.15\<rparr> #
       schedule_loop (11268250301319697206612010 / 126825030131969720661201) 0.01 2 11 921.15"
    unfolding plan_schedule_def n pm rates.simps r f by (rule one_percent_first_row)
  show ?thesis
    by (intro exI [of _ c] exI [of _ pays] conjI c p g f(1) ir r pm pa s)
qed

subsection \<open>Inputs for which the methods return\<close>

lemma pipeline_returns:
  assumes "- 200 \<le> i" and "0 < a"
  shows "\<exists>c pays. init P i a t = Inr c \<and> calculatepayments c = Inr pays \<and>
    generate_schedule c = Inr (plan_schedule c pays)"
proof -
  from init_ok [OF assms(1), of P a t] obtain c where c: "init P i a t = Inr c" by blast
  have "0 < amortization_period c" using assms(2) by (simp add: init_fields [OF c])
  from calculatepayments_ok [OF this init_rates_ge [OF c]] obtain pays where
    p: "calculatepayments c = Inr pays" by blast
  have "generate_schedule c = Inr (plan_schedule c pays)"
    by (simp add: generate_schedule_Inr p)
  with c p show ?thesis by blast
qed

subsection \<open>Reading and changing objects on the heap\<close>

lemma get_instance_iff:
  "get_instance r h = Some c \<longleftrightarrow> r < length h \<and> h ! r = Instance c"
  by (auto simp: get_instance_def get_obj_def split: obj.splits)

lemma get_ints_iff: "get_ints r h = Some xs \<longleftrightarrow> r < length h \<and> h ! r = IntList xs"
  by (auto simp: get_ints_def get_obj_def split: obj.splits)

lemma get_floats_iff: "get_floats r h = Some xs \<longleftrightarrow> r < length h \<and> h ! r = FloatList xs"
  by (auto simp: get_floats_def get_obj_def split: obj.splits)

lemma get_terms_iff: "get_terms r h = Some d \<longleftrightarrow> r < length h \<and> h ! r = TermDict d"
  by (auto simp: get_terms_def get_obj_def split: obj.splits)

lemma get_schedules_iff:
  "get_schedules r h = Some d \<longleftrightarrow> r < length h \<and> h ! r = ScheduleDict d"
  by (auto simp: get_schedules_def get_obj_def split: obj.splits)

lemma append_int_Some:
  "r < length h \<Longrightarrow> h ! r = IntList xs \<Longrightarrow>
   append_int r v h = Some (h[r := IntList (xs @ [v])])"
  using get_ints_iff [of r h xs] by (simp add: append_int_def)

lemma append_float_Some:
  "r < length h \<Longrightarrow> h ! r = FloatList xs \<Longrightarrow>
   append_float r v h = Some (h[r := FloatList (xs @ [v])])"
  using get_floats_iff [of r h xs] by (simp add: append_float_def)

lemma set_term_Some:
  "r < length h \<Longrightarrow> h ! r = TermDict d \<Longrightarrow>
   set_term r name v h = Some (h[r := TermDict (d(name \<mapsto> v))])"
  using get_terms_iff [of r h d] by (simp add: set_term_def)

lemma set_schedule_Some:
  "r < length h \<Longrightarrow> h ! r = ScheduleDict d \<Longrightarrow>
   set_schedule r name df h = Some (h[r := ScheduleDict (d(name \<mapsto> df))])"
  using get_schedules_iff [of r h d] by (simp add: set_schedule_def)

subsection \<open>The period loop fills the five lists and touches nothing else\<close>

lemma append_periods_result:
  assumes "distinct [p, b, it, pp, e]"
    and "p < length h" "b < length h" "it < length h" "pp < length h" "e < length h"
    and "h ! p = IntList ps" "h ! b = FloatList bs" "h ! it = FloatList is"
      "h ! pp = FloatList pps" "h ! e = FloatList es"
  shows "\<exists>h'. append_periods Pmt Rate i n cb p b it pp e h = Some h' \<and>
    length h' = length h \<and>
    h' ! p = IntList (ps @ map Period (schedule_loop Pmt Rate i n cb)) \<and>
    h' ! b = FloatList (bs @ map Beginning_Balance (schedule_loop Pmt Rate i n cb)) \<and>
    h' ! it = FloatList (is @ map Interest_Paid (schedule_loop Pmt Rate i n cb)) \<and>
    h' ! pp = FloatList (pps @ map Principal_Paid (schedule_loop Pmt Rate i n cb)) \<and>
    h' ! e = FloatList (es @ map Ending_Balance (schedule_loop Pmt Rate i n cb)) \<and>
    (\<forall>a. a \<notin> {p, b, it, pp, e} \<longrightarrow> h' ! a = h ! a)"
  using assms
proof (induction n arbitrary: i cb h ps bs "is" pps es)
  case 0
  then show ?case by simp
next
  case (Suc n)
  let ?r = "period_row Pmt Rate i cb"
  let ?h5 = "h[p := IntList (ps @ [Period ?r]),
               b := FloatList (bs @ [Beginning_Balance ?r]),
               it := FloatList (is @ [Interest_Paid ?r]),
               pp := FloatList (pps @ [Principal_Paid ?r]),
               e := FloatList (es @ [Ending_Balance ?r])]"
  note d = Suc.prems(1)
  have five: "do { h \<leftarrow> append_int p (Period ?r) h;
           h \<leftarrow> append_float b (Beginning_Balance ?r) h;
           h \<leftarrow> append_float it (Interest_Paid ?r) h;
           h \<leftarrow> append_float pp (Principal_Paid ?r) h;
           append_float e (Ending_Balance ?r) h } = Some ?h5"
    using Suc.prems by (simp add: append_int_Some append_float_Some)
  have h5: "length ?h5 = length h"
    "?h5 ! p = IntList (ps @ [Period ?r])"
    "?h5 ! b = FloatList (bs @ [Beginning_Balance ?r])"
    "?h5 ! it = FloatList (is @ [Interest_Paid ?r])"
    "?h5 ! pp = FloatList (pps @ [Principal_Paid ?r])"
    "?h5 ! e = FloatList (es @ [Ending_Balance ?r])"
    "\<And>a. a \<notin> {p, b, it, pp, e} \<Longrightarrow> ?h5 ! a = h ! a"
    using Suc.prems by (auto simp: nth_list_update)
  have run: "append_periods Pmt Rate i (Suc n) cb p b it pp e h =
      (if Ending_Balance ?r \<le> 0 then Some ?h5
       else append_periods Pmt Rate (i + 1) n (Ending_Balance ?r) p b it pp e ?h5)"
    using Suc.prems by (simp add: Let_def append_int_Some append_float_Some)
  show ?case
  proof (cases "Ending_Balance ?r \<le> 0")
    case True
    then have rows: "schedule_loop Pmt Rate i (Suc n) cb = [?r]" by (simp add: Let_def)
    show ?thesis
      unfolding rows run using True h5 by (intro exI [of _ ?h5]) simp
  next
    case False
    then have rows: "schedule_loop Pmt Rate i (Suc n) cb =
        ?r # schedule_loop Pmt Rate (i + 1) n (Ending_Balance ?r)"
      by (simp add: Let_def)
    from Suc.IH [of ?h5 "ps @ [Period ?r]" "bs @ [Beginning_Balance ?r]"
        "is @ [Interest_Paid ?r]" "pps @ [Principal_Paid ?r]" "es @ [Ending_Balance ?r]"
        "i + 1" "Ending_Balance ?r", OF d]
      Suc.prems(2-6) h5(2-6)
    obtain h' where h': "append_periods Pmt Rate (i + 1) n (Ending_Balance ?r) p b it pp e ?h5 =
        Some h'"
      "length h' = length ?h5"
      "h' ! p = IntList ((ps @ [Period ?r]) @
         map Period (schedule_loop Pmt Rate (i + 1) n (Ending_Balance ?r)))"
      "h' ! b = FloatList ((bs @ [Beginning_Balance ?r]) @
         map Beginning_Balance (schedule_loop Pmt Rate (i + 1) n (Ending_Balance ?r)))"
      "h' ! it = FloatList ((is @ [Interest_Paid ?r]) @
         map Interest_Paid (schedule_loop Pmt Rate (i + 1) n (Ending_Balance ?r)))"
      "h' ! pp = FloatList ((pps @ [Principal_Paid ?r]) @
         map Principal_Paid (schedule_loop Pmt Rate (i + 1) n (Ending_Balance ?r)))"
      "h' ! e = FloatList ((es @ [Ending_Balance ?r]) @
         map Ending_Balance (schedule_loop Pmt Rate (i + 1) n (Ending_Balance ?r)))"
      "\<forall>a. a \<notin> {p, b, it, pp, e} \<longrightarrow> h' ! a = ?h5 ! a"
      by (auto simp only: length_list_update)
    have frame: "\<forall>a. a \<notin> {p, b, it, pp, e} \<longrightarrow> h' ! a = h ! a"
      using h'(8) h5(7) by simp
    show ?thesis
      unfolding rows run using False h'(1-7) h5(1) frame
      by (intro exI [of _ h']) simp
  qed
qed

subsection \<open>The data frame built from the columns\<close>

lemma schedule_loop_payment:
  "r \<in> set (schedule_loop Pmt Rate i n b) \<Longrightarrow> Payment r = np_round2 Pmt"
  by (auto dest: schedule_loop_rows simp: Payment_period_row)

lemma data_frame_columns:
  assumes "\<forall>r \<in> set rs. Payment r = p"
  shows "data_frame (map Period rs) (map Beginning_Balance rs) (replicate (length rs) p)
    (map Interest_Paid rs) (map Principal_Paid rs) (map Ending_Balance rs) = Some rs"
proof -
  have "map (\<lambda>k. \<lparr> Period = map Period rs ! k,
                  Beginning_Balance = map Beginning_Balance rs ! k,
                  Payment = replicate (length rs) p ! k,
                  Interest_Paid = map Interest_Paid rs ! k,
                  Principal_Paid = map Principal_Paid rs ! k,
                  Ending_Balance = map Ending_Balance rs ! k \<rparr>) [0..<length rs] =
        map (\<lambda>k. rs ! k) [0..<length rs]"
    using assms by (intro map_cong refl) simp
  also have "\<dots> = rs" by (rule map_nth)
  finally show ?thesis by (simp add: data_frame_def)
qed

subsection \<open>One plan: five new lists, one entry of \<open>schedules\<close>\<close>

lemma plan_body_result:
  assumes "self < length h" "h ! self = Instance c"
    and "tp < length h" "h ! tp = TermDict d" "d name = Some (total_term_payments c name)"
    and "sd < length h" "h ! sd = ScheduleDict m"
  shows "\<exists>h'. plan_body self pays (rates c) tp sd name h = Some h' \<and>
    length h' = length h + 5 \<and>
    h' ! sd = ScheduleDict (m(name \<mapsto> plan_schedule c pays name)) \<and>
    (\<forall>a < length h. a \<noteq> sd \<longrightarrow> h' ! a = h ! a)"
proof -
  let ?n = "length h"
  let ?h0 = "h @ [IntList [], FloatList [], FloatList [], FloatList [], FloatList []]"
  let ?rows = "schedule_loop (payment_info pays name) (rates c name) 1
    (nat (total_term_payments c name)) (principal c)"
  have old: "a < ?n \<Longrightarrow> ?h0 ! a = h ! a" for a by (simp add: nth_append)
  have new: "?h0 ! ?n = IntList []" "?h0 ! (Suc ?n) = FloatList []"
    "?h0 ! (Suc (Suc ?n)) = FloatList []" "?h0 ! (Suc (Suc (Suc ?n))) = FloatList []"
    "?h0 ! (Suc (Suc (Suc (Suc ?n)))) = FloatList []"
    by (simp_all add: nth_append)
  have "distinct [?n, Suc ?n, Suc (Suc ?n), Suc (Suc (Suc ?n)), Suc (Suc (Suc (Suc ?n)))]" by simp
  from append_periods_result [OF this _ _ _ _ _ new,
      of "payment_info pays name" "rates c name" 1 "nat (total_term_payments c name)"
        "principal c"]
  obtain h1 where h1:
    "append_periods (payment_info pays name) (rates c name) 1
       (nat (total_term_payments c name)) (principal c)
       ?n (Suc ?n) (Suc (Suc ?n)) (Suc (Suc (Suc ?n))) (Suc (Suc (Suc (Suc ?n)))) ?h0 = Some h1"
    "length h1 = length ?h0"
    "h1 ! ?n = IntList ([] @ map Period ?rows)"
    "h1 ! (Suc ?n) = FloatList ([] @ map Beginning_Balance ?rows)"
    "h1 ! (Suc (Suc ?n)) = FloatList ([] @ map Interest_Paid ?rows)"
    "h1 ! (Suc (Suc (Suc ?n))) = FloatList ([] @ map Principal_Paid ?rows)"
    "h1 ! (Suc (Suc (Suc (Suc ?n)))) = FloatList ([] @ map Ending_Balance ?rows)"
    "\<forall>a. a \<notin> {?n, Suc ?n, Suc (Suc ?n), Suc (Suc (Suc ?n)), Suc (Suc (Suc (Suc ?n)))} \<longrightarrow> h1 ! a = ?h0 ! a"
    by auto
  have keep: "a < ?n \<Longrightarrow> h1 ! a = h ! a" for a using h1(8) old by simp
  have len1: "length h1 = ?n + 5" using h1(2) by simp
  have df: "data_frame (map Period ?rows) (map Beginning_Balance ?rows)
      (replicate (length ?rows) (np_round2 (payment_info pays name)))
      (map Interest_Paid ?rows) (map Principal_Paid ?rows) (map Ending_Balance ?rows) =
      Some ?rows"
    using data_frame_columns [of ?rows "np_round2 (payment_info pays name)"]
    by (simp add: schedule_loop_payment)
  let ?h2 = "h1[sd := ScheduleDict (m(name \<mapsto> ?rows))]"
  have sd1: "sd < length h1" "h1 ! sd = ScheduleDict m"
    using assms(6,7) keep len1 by simp_all
  have store: "set_schedule sd name ?rows h1 = Some ?h2"
    using sd1 by (rule set_schedule_Some)
  have terms: "get_terms tp h = Some d" using assms(3,4) by (simp add: get_terms_iff)
  have inst: "get_instance self ?h0 = Some c"
    using assms(1,2) old by (simp add: get_instance_iff)
  have reads: "get_ints ?n h1 = Some (map Period ?rows)"
    "get_floats (Suc ?n) h1 = Some (map Beginning_Balance ?rows)"
    "get_floats (Suc (Suc ?n)) h1 = Some (map Interest_Paid ?rows)"
    "get_floats (Suc (Suc (Suc ?n))) h1 = Some (map Principal_Paid ?rows)"
    "get_floats (Suc (Suc (Suc (Suc ?n)))) h1 = Some (map Ending_Balance ?rows)"
    using h1(3-7) len1 by (simp_all add: get_ints_iff get_floats_iff)
  have run: "plan_body self pays (rates c) tp sd name h = Some ?h2"
    unfolding plan_body_def new_obj_def
    by (simp add: terms assms(5) inst h1(1) reads df store Let_def)
  have "length ?h2 = ?n + 5" using len1 by simp
  moreover have "?h2 ! sd = ScheduleDict (m(name \<mapsto> plan_schedule c pays name))"
    using sd1(1) by (simp add: plan_schedule_def)
  moreover have "\<forall>a < ?n. a \<noteq> sd \<longrightarrow> ?h2 ! a = h ! a"
    using keep by (simp add: nth_list_update)
  ultimately show ?thesis using run by blast
qed

subsection \<open>The two loops over the plans\<close>

lemma fill_total_term_payments_result:
  assumes "self < length h" "h ! self = Instance c" "tp < length h" "h ! tp = TermDict d"
  shows "\<exists>h'. fill_total_term_payments self tp names h = Some h' \<and>
    length h' = length h \<and>
    h' ! tp = TermDict (\<lambda>name. if name \<in> set names then Some (total_term_payments c name)
                               else d name) \<and>
    (\<forall>a. a \<noteq> tp \<longrightarrow> h' ! a = h ! a)"
  using assms
proof (induction names arbitrary: h d)
  case Nil
  then show ?case by simp
next
  case (Cons name names)
  let ?d1 = "d(name \<mapsto> term_years c * frequencies name)"
  let ?h1 = "h[tp := TermDict ?d1]"
  have ne: "self \<noteq> tp" using Cons.prems(2,4) by auto
  have inst: "get_instance self h = Some c"
    using Cons.prems(1,2) by (simp add: get_instance_iff)
  have step: "set_term tp name (term_years c * frequencies name) h = Some ?h1"
    using Cons.prems(3,4) by (rule set_term_Some)
  have pre: "self < length ?h1" "?h1 ! self = Instance c" "tp < length ?h1"
    "?h1 ! tp = TermDict ?d1"
    using Cons.prems ne by simp_all
  from Cons.IH [OF pre] obtain h' where h':
    "fill_total_term_payments self tp names ?h1 = Some h'"
    "length h' = length ?h1"
    "h' ! tp = TermDict (\<lambda>n. if n \<in> set names then Some (total_term_payments c n) else ?d1 n)"
    "\<forall>a. a \<noteq> tp \<longrightarrow> h' ! a = ?h1 ! a"
    by blast
  have run: "fill_total_term_payments self tp (name # names) h = Some h'"
    by (simp add: inst step h'(1))
  have dict: "(\<lambda>n. if n \<in> set names then Some (total_term_payments c n) else ?d1 n) =
      (\<lambda>n. if n \<in> set (name # names) then Some (total_term_payments c n) else d n)"
    by (auto simp: fun_eq_iff total_term_payments_def)
  show ?case
    using run h'(2,4) h'(3) [unfolded dict] by (intro exI [of _ h']) simp
qed

lemma plan_loop_result:
  assumes "self < length h" "h ! self = Instance c"
    and "tp < length h" "h ! tp = TermDict d"
    and "\<forall>name \<in> set names. d name = Some (total_term_payments c name)"
    and "sd < length h" "h ! sd = ScheduleDict m"
  shows "\<exists>h'. plan_loop self pays (rates c) tp sd names h = Some h' \<and>
    length h \<le> length h' \<and>
    h' ! sd = ScheduleDict (\<lambda>name. if name \<in> set names then Some (plan_schedule c pays name)
                                   else m name) \<and>
    (\<forall>a < length h. a \<noteq> sd \<longrightarrow> h' ! a = h ! a)"
  using assms
proof (induction names arbitrary: h m)
  case Nil
  then show ?case by simp
next
  case (Cons name names)
  have ne: "self \<noteq> sd" "tp \<noteq> sd" using Cons.prems(2,4,7) by auto
  have key: "d name = Some (total_term_payments c name)" using Cons.prems(5) by simp
  from plan_body_result [OF Cons.prems(1-4) key Cons.prems(6,7), of pays]
  obtain h1 where h1: "plan_body self pays (rates c) tp sd name h = Some h1"
    "length h1 = length h + 5"
    "h1 ! sd = ScheduleDict (m(name \<mapsto> plan_schedule c pays name))"
    "\<forall>a < length h. a \<noteq> sd \<longrightarrow> h1 ! a = h ! a"
    by blast
  have pre: "self < length h1" "h1 ! self = Instance c" "tp < length h1" "h1 ! tp = TermDict d"
    "\<forall>name \<in> set names. d name = Some (total_term_payments c name)"
    "sd < length h1"
    using Cons.prems h1(2,4) ne by simp_all
  from Cons.IH [OF pre h1(3)] obtain h' where h':
    "plan_loop self pays (rates c) tp sd names h1 = Some h'"
    "length h1 \<le> length h'"
    "h' ! sd = ScheduleDict (\<lambda>n. if n \<in> set names then Some (plan_schedule c pays n)
                                else (m(name \<mapsto> plan_schedule c pays name)) n)"
    "\<forall>a < length h1. a \<noteq> sd \<longrightarrow> h' ! a = h1 ! a"
    by blast
  have run: "plan_loop self pays (rates c) tp sd (name # names) h = Some h'"
    by (simp add: h1(1) h'(1))
  have dict: "(\<lambda>n. if n \<in> set names then Some (plan_schedule c pays n)
                 else (m(name \<mapsto> plan_schedule c pays name)) n) =
      (\<lambda>n. if n \<in> set (name # names) then Some (plan_schedule c pays n) else m n)"
    by (auto simp: fun_eq_iff)
  have frame: "\<forall>a < length h. a \<noteq> sd \<longrightarrow> h' ! a = h ! a"
    using h'(4) h1(2,4) by simp
  have len: "length h \<le> length h'" using h'(2) h1(2) by simp
  show ?case
    using run len frame h'(3) [unfolded dict] by (intro exI [of _ h']) simp
qed

lemma payment_names_all: "name \<in> set payment_names"
  by (cases name) (simp_all add: payment_names_def)

subsection \<open>A call of \<open>generate_schedule\<close> on the heap\<close>

lemma calculatepayments_heap_result:
  assumes "self < length h" "h ! self = Instance c"
  shows "calculatepayments_heap self h = Some (calculatepayments c, h)"
  using assms by (simp add: calculatepayments_heap_def get_instance_iff [THEN iffD2])

lemma generate_schedule_heap_error:
  assumes "self < length h" "h ! self = Instance c" "calculatepayments c = Inl e"
  shows "generate_schedule_heap self h = Some (Inl e, h)"
  by (simp add: generate_schedule_heap_def calculatepayments_heap_result [OF assms(1,2)]
      assms(3))

lemma generate_schedule_heap_result:
  assumes "self < length h" "h ! self = Instance c" "calculatepayments c = Inr pays"
  shows "\<exists>h'. generate_schedule_heap self h = Some (Inr (length h), h') \<and>
    length h < length h' \<and> take (length h) h' = h \<and>
    h' ! length h = ScheduleDict (\<lambda>name. Some (plan_schedule c pays name))"
proof -
  let ?sd = "length h"
  let ?tp = "Suc (length h)"
  let ?h2 = "h @ [ScheduleDict Map.empty, TermDict Map.empty]"
  have old: "a < length h \<Longrightarrow> ?h2 ! a = h ! a" for a by (simp add: nth_append)
  have pre2: "self < length ?h2" "?h2 ! self = Instance c" "?tp < length ?h2"
    "?h2 ! ?tp = TermDict Map.empty"
    using assms(1,2) by (simp_all add: nth_append)
  from fill_total_term_payments_result [OF pre2, of payment_names] obtain h3 where h3:
    "fill_total_term_payments self ?tp payment_names ?h2 = Some h3"
    "length h3 = length ?h2"
    "h3 ! ?tp = TermDict (\<lambda>name. if name \<in> set payment_names
                                  then Some (total_term_payments c name) else Map.empty name)"
    "\<forall>a. a \<noteq> ?tp \<longrightarrow> h3 ! a = ?h2 ! a"
    by blast
  have pre3: "self < length h3" "h3 ! self = Instance c" "?tp < length h3"
    "\<forall>name \<in> set payment_names.
       (\<lambda>name. if name \<in> set payment_names then Some (total_term_payments c name)
               else Map.empty name) name = Some (total_term_payments c name)"
    "?sd < length h3" "h3 ! ?sd = ScheduleDict Map.empty"
    using assms(1,2) h3(2,4) by (simp_all add: nth_append)
  from plan_loop_result [OF pre3(1-3) h3(3) pre3(4-6), of pays] obtain h4 where h4:
    "plan_loop self pays (rates c) ?tp ?sd payment_names h3 = Some h4"
    "length h3 \<le> length h4"
    "h4 ! ?sd = ScheduleDict (\<lambda>name. if name \<in> set payment_names
                                     then Some (plan_schedule c pays name)
                                     else Map.empty name)"
    "\<forall>a < length h3. a \<noteq> ?sd \<longrightarrow> h4 ! a = h3 ! a"
    by blast
  have inst1: "get_instance self (h @ [ScheduleDict Map.empty]) = Some c"
    using assms(1,2) by (simp add: get_instance_iff nth_append)
  have run: "generate_schedule_heap self h = Some (Inr ?sd, h4)"
    by (simp add: generate_schedule_heap_def calculatepayments_heap_result [OF assms(1,2)]
        assms(3) new_obj_def inst1 h3(1) h4(1))
  have len: "length h < length h4" using h4(2) h3(2) by simp
  have "\<forall>a < length h. h4 ! a = h ! a"
    using h4(4) h3(2,4) old by simp
  then have take: "take (length h) h4 = h"
    using len by (intro nth_equalityI) simp_all
  have dict: "h4 ! ?sd = ScheduleDict (\<lambda>name. Some (plan_schedule c pays name))"
    using h4(3) by (simp add: payment_names_all)
  from run len take dict show ?thesis by blast
qed

lemma generate_schedule_heap_refines:
  assumes "get_instance self h = Some c"
  shows "\<exists>g h'. generate_schedule_heap self h = Some (g, h') \<and> take (length h) h' = h \<and>
    (case generate_schedule c of
       Inl e \<Rightarrow> g = Inl e \<and> h' = h
     | Inr schedules \<Rightarrow>
         g = Inr (length h) \<and> length h < length h' \<and>
         get_schedules (length h) h' = Some (\<lambda>name. Some (schedules name)))"
proof -
  from assms have s: "self < length h" "h ! self = Instance c"
    by (simp_all add: get_instance_iff)
  show ?thesis
  proof (cases "calculatepayments c")
    case (Inl e)
    then show ?thesis
      using generate_schedule_heap_error [OF s Inl]
      by (simp add: generate_schedule_def bind_err_simps)
  next
    case (Inr pays)
    from generate_schedule_heap_result [OF s Inr] obtain h' where h':
      "generate_schedule_heap self h = Some (Inr (length h), h')"
      "length h < length h'" "take (length h) h' = h"
      "h' ! length h = ScheduleDict (\<lambda>name. Some (plan_schedule c pays name))"
      by blast
    have "get_schedules (length h) h' = Some (\<lambda>name. Some (plan_schedule c pays name))"
      using h'(2,4) by (simp add: get_schedules_iff)
    then show ?thesis
      using h'(1-3) Inr by (simp add: generate_schedule_def bind_err_simps)
  qed
qed

lemma get_instance_take:
  assumes "take (length h) h' = h" "get_instance self h = Some c"
  shows "get_instance self h' = Some c"
proof -
  from assms(2) have s: "self < length h" "h ! self = Instance c"
    by (simp_all add: get_instance_iff)
  have "length (take (length h) h') = length h"
    using assms(1) by simp
  then have "length h \<le> length h'"
    by simp
  moreover have "h' ! self = h ! self"
    using s(1) assms(1) by (metis nth_take)
  ultimately show ?thesis using s by (simp add: get_instance_iff)
qed

lemma get_schedules_take:
  assumes "take (length h) h' = h" "get_schedules d h = Some m"
  shows "get_schedules d h' = Some m"
proof -
  from assms(2) have s: "d < length h" "h ! d = ScheduleDict m"
    by (simp_all add: get_schedules_iff)
  have "length (take (length h) h') = length h"
    using assms(1) by simp
  then have "length h \<le> length h'"
    by simp
  moreover have "h' ! d = h ! d"
    using s(1) assms(1) by (metis nth_take)
  ultimately show ?thesis using s by (simp add: get_schedules_iff)
qed

lemma calculatepayments_heap_reads:
  assumes "get_instance self h = Some c"
  shows "calculatepayments_heap self h = Some (calculatepayments c, h)"
  using assms by (simp add: calculatepayments_heap_def)

section \<open>The claims\<close>

subsection \<open>C1: what one period computes\<close>

text \<open>
  C1.  For every plan and every row \<open>k\<close> of its schedule, let the beginning balance of
  the period be the balance the loop carries into it: the principal for the first row,
  the ending balance of the row before for every other row.  Then the interest of the
  row is the beginning balance times the plan's periodic rate, rounded to two decimals;
  the principal portion is the plan's payment minus that rounded interest, rounded
  again; if the beginning balance minus the principal portion is negative, the row's
  principal portion is the beginning balance itself and its ending balance is \<open>0\<close>,
  otherwise the ending balance is the rounded difference.  Each rounding is applied
  where the formula shows it, inside the period.  The row's own beginning-balance
  column is the rounded beginning balance, which after the first row is the beginning
  balance itself.
\<close>

theorem period_computation:
  assumes "generate_schedule c = Inr schedules"
    and "calculatepayments c = Inr pays"
    and "k < length (schedules name)"
  shows
    "let r = schedules name ! k;
         beginningBalance =
           (if k = 0 then principal c else Ending_Balance (schedules name ! (k - 1)));
         payment = payment_info pays name;
         periodicRate = rates c name;
         interestPortion = np_round2 (beginningBalance * periodicRate);
         principalPortion = np_round2 (payment - interestPortion)
     in Interest_Paid r = interestPortion \<and>
        Principal_Paid r =
          (if beginningBalance - principalPortion < 0 then beginningBalance
           else principalPortion) \<and>
        Ending_Balance r =
          (if beginningBalance - principalPortion < 0 then 0
           else np_round2 (beginningBalance - principalPortion)) \<and>
        Beginning_Balance r = np_round2 beginningBalance \<and>
        Beginning_Balance r = (if k = 0 then np_round2 (principal c) else beginningBalance) \<and>
        Period r = 1 + int k"
proof -
  from assms(1,2) have s: "schedules = plan_schedule c pays"
    by (auto simp: generate_schedule_Inr)
  let ?b = "if k = 0 then principal c else Ending_Balance (plan_schedule c pays name ! (k - 1))"
  have row: "plan_schedule c pays name ! k =
      period_row (payment_info pays name) (rates c name) (1 + int k) ?b"
    using assms(3) unfolding s by (rule plan_schedule_nth)
  have rounded: "0 < k \<Longrightarrow> np_round2 ?b = ?b"
  proof -
    assume k: "0 < k"
    then have "k - 1 < length (plan_schedule c pays name)" using assms(3) s by simp
    from plan_schedule_nth [OF this] k show ?thesis
      by (simp add: Ending_Balance_rounded)
  qed
  show ?thesis
    unfolding s Let_def row
    using rounded
    by (simp add: Interest_Paid_period_row Principal_Paid_period_row
        Ending_Balance_period_row Beginning_Balance_period_row Period_period_row)
qed

theorem period_computation_witness:
  "(\<exists>c schedules pays.
     init 1000 12.3040301202 1 1 = Inr c \<and> generate_schedule c = Inr schedules \<and>
     calculatepayments c = Inr pays \<and> 0 < length (schedules Monthly) \<and>
     principal c = 1000 \<and> rates c Monthly = 0.01 \<and>
     Interest_Paid (schedules Monthly ! 0) = np_round2 (1000 * 0.01) \<and>
     Interest_Paid (schedules Monthly ! 0) = 10 \<and>
     Principal_Paid (schedules Monthly ! 0) = np_round2 (payment_info pays Monthly - 10) \<and>
     Principal_Paid (schedules Monthly ! 0) = 78.85 \<and>
     Ending_Balance (schedules Monthly ! 0) = np_round2 (1000 - 78.85) \<and>
     Ending_Balance (schedules Monthly ! 0) = 921.15) \<and>
   (\<exists>c schedules pays.
     init 200 0 1 1 = Inr c \<and> generate_schedule c = Inr schedules \<and>
     calculatepayments c = Inr pays \<and> 11 < length (schedules Monthly) \<and>
     Ending_Balance (schedules Monthly ! 10) = 16.63 \<and>
     Interest_Paid (schedules Monthly ! 11) = np_round2 (16.63 * rates c Monthly) \<and>
     16.63 - np_round2 (payment_info pays Monthly - 0) < 0 \<and>
     Principal_Paid (schedules Monthly ! 11) = 16.63 \<and>
     Ending_Balance (schedules Monthly ! 11) = 0)"
proof (rule conjI)
  from one_percent_run obtain c pays where
    i: "init 1000 12.3040301202 1 1 = Inr c" and p: "calculatepayments c = Inr pays"
    and g: "generate_schedule c = Inr (plan_schedule c pays)"
    and f: "principal c = 1000" "monthlyinterestrate c = 0.01"
    and pm: "payment_info pays Monthly =
      11268250301319697206612010 / 126825030131969720661201"
    and s: "plan_schedule c pays Monthly =
       \<lparr>Period = 1, Beginning_Balance = 1000, Payment = 88.85, Interest_Paid = 10,
        Principal_Paid = 78.85, Ending_Balance = 921.15\<rparr> #
       schedule_loop (11268250301319697206612010 / 126825030131969720661201) 0.01 2 11 921.15"
    by blast
  have len: "0 < length (plan_schedule c pays Monthly)" by (simp add: s)
  note row = period_computation [OF g p len]
  show "\<exists>c schedules pays.
     init 1000 12.3040301202 1 1 = Inr c \<and> generate_schedule c = Inr schedules \<and>
     calculatepayments c = Inr pays \<and> 0 < length (schedules Monthly) \<and>
     principal c = 1000 \<and> rates c Monthly = 0.01 \<and>
     Interest_Paid (schedules Monthly ! 0) = np_round2 (1000 * 0.01) \<and>
     Interest_Paid (schedules Monthly ! 0) = 10 \<and>
     Principal_Paid (schedules Monthly ! 0) = np_round2 (payment_info pays Monthly - 10) \<and>
     Principal_Paid (schedules Monthly ! 0) = 78.85 \<and>
     Ending_Balance (schedules Monthly ! 0) = np_round2 (1000 - 78.85) \<and>
     Ending_Balance (schedules Monthly ! 0) = 921.15"
    using row
    by (intro exI [of _ c] exI [of _ "plan_schedule c pays"] exI [of _ pays] conjI i p g len
        f(1)) (simp_all add: s f pm np_round2_def rint_eval)
next
  from zero_rate_run obtain c pays where
    i: "init 200 0 1 1 = Inr c" and p: "calculatepayments c = Inr pays"
    and g: "generate_schedule c = Inr (plan_schedule c pays)"
    and f: "principal c = 200" "monthlyinterestrate c = 0" "payment_info pays Monthly = 50 / 3"
    and m: "plan_schedule c pays Monthly = schedule_loop (50 / 3) 0 1 12 200"
    by blast
  have len: "11 < length (plan_schedule c pays Monthly)"
    by (simp only: m zero_rate_monthly) simp
  have prev: "Ending_Balance (plan_schedule c pays Monthly ! 10) = 16.63"
    by (simp only: m zero_rate_monthly) simp
  have r0: "np_round2 0 = 0" by (rule np_round2_0)
  have r1: "np_round2 (50 / 3) = 16.67" by (simp add: np_round2_def rint_eval)
  from period_computation [OF g p len]
  have "Interest_Paid (plan_schedule c pays Monthly ! 11) = np_round2 (16.63 * rates c Monthly)
      \<and> Principal_Paid (plan_schedule c pays Monthly ! 11) = 16.63
      \<and> Ending_Balance (plan_schedule c pays Monthly ! 11) = 0"
    by (simp add: Let_def prev f r0 r1)
  then show "\<exists>c schedules pays.
     init 200 0 1 1 = Inr c \<and> generate_schedule c = Inr schedules \<and>
     calculatepayments c = Inr pays \<and> 11 < length (schedules Monthly) \<and>
     Ending_Balance (schedules Monthly ! 10) = 16.63 \<and>
     Interest_Paid (schedules Monthly ! 11) = np_round2 (16.63 * rates c Monthly) \<and>
     16.63 - np_round2 (payment_info pays Monthly - 0) < 0 \<and>
     Principal_Paid (schedules Monthly ! 11) = 16.63 \<and>
     Ending_Balance (schedules Monthly ! 11) = 0"
    by (intro exI [of _ c] exI [of _ "plan_schedule c pays"] exI [of _ pays])
      (simp add: i p g len prev f r0 r1)
qed

subsection \<open>C2: the periodic rates\<close>

text \<open>
  C2, as the constructor has it.  The constructor takes the yearly rate as a percentage
  (5.5 for 5.5 percent) and divides it by 100 itself; with \<open>r\<close> that quotient, the
  periodic rate of each frequency \<open>f\<close> of 12, 24, 26 and 52 payments a year is
  \<open>(1 + r / 2)^(2 / f) - 1\<close>, and it is zero when the rate is zero.  The constructor
  returns these real rates for every percentage from -200 upwards; below -200 the base
  of the powers is negative and the rates are no real numbers.  A rate handed over as a
  fraction already (0.055) is divided by 100 all the same, so its periodic rates are
  those of 0.055 percent.
\<close>

theorem periodic_rates:
  "(init P i a t = Inr c \<longrightarrow>
      interestrate c = i / 100 \<and>
      rates c name = (1 + interestrate c / 2) powr (2 / real_of_int (frequencies name)) - 1 \<and>
      monthlyinterestrate c = (1 + interestrate c / 2) powr (2 / 12) - 1 \<and>
      semimonthlyinterestrate c = (1 + interestrate c / 2) powr (2 / 24) - 1 \<and>
      biweeklyinterestrate c = (1 + interestrate c / 2) powr (2 / 26) - 1 \<and>
      weeklyinterestrate c = (1 + interestrate c / 2) powr (2 / 52) - 1 \<and>
      (if i = 0 then rates c name = 0 else True)) \<and>
   (- 200 \<le> i \<longrightarrow> (\<exists>c'. init P i a t = Inr c')) \<and>
   (i < - 200 \<longrightarrow> init P i a t = Inl ComplexResult)"
proof (intro conjI; rule impI)
  assume "init P i a t = Inr c"
  note c = init_Inr(2) [OF this]
  show "interestrate c = i / 100 \<and>
      rates c name = (1 + interestrate c / 2) powr (2 / real_of_int (frequencies name)) - 1 \<and>
      monthlyinterestrate c = (1 + interestrate c / 2) powr (2 / 12) - 1 \<and>
      semimonthlyinterestrate c = (1 + interestrate c / 2) powr (2 / 24) - 1 \<and>
      biweeklyinterestrate c = (1 + interestrate c / 2) powr (2 / 26) - 1 \<and>
      weeklyinterestrate c = (1 + interestrate c / 2) powr (2 / 52) - 1 \<and>
      (if i = 0 then rates c name = 0 else True)"
    by (subst (1 2 3 4 5 6 7 8 9 10 11 12) c, cases name) simp_all
next
  assume "- 200 \<le> i"
  from init_ok [OF this, of P a t] show "\<exists>c'. init P i a t = Inr c'" by blast
next
  assume "i < - 200"
  then show "init P i a t = Inl ComplexResult" by (rule init_error)
qed

theorem periodic_rates_witness:
  "\<exists>c. init 1000 12.3040301202 1 1 = Inr c \<and>
     interestrate c = 12.3040301202 / 100 \<and>
     monthlyinterestrate c = (1 + interestrate c / 2) powr (2 / 12) - 1 \<and>
     rates c Monthly = (1 + interestrate c / 2) powr (2 / real_of_int (frequencies Monthly)) - 1 \<and>
     monthlyinterestrate c = 0.01"
proof -
  from one_percent_run obtain c where
    i: "init 1000 12.3040301202 1 1 = Inr c" and r: "monthlyinterestrate c = 0.01"
    by blast
  from periodic_rates [where c = c and name = Monthly and P = 1000 and a = 1 and t = 1] i
  have "interestrate c = 12.3040301202 / 100 \<and>
     monthlyinterestrate c = (1 + interestrate c / 2) powr (2 / 12) - 1 \<and>
     rates c Monthly = (1 + interestrate c / 2) powr (2 / real_of_int (frequencies Monthly)) - 1"
    by blast
  then show ?thesis using i r by blast
qed

text \<open>
  The claim as written fails: handed the fraction 0.055, the constructor's monthly
  rate is not \<open>(1 + 0.055 / 2)^(2 / 12) - 1\<close>.
\<close>

theorem fraction_rate_counterexample:
  "\<exists>c. init 100000 0.055 25 5 = Inr c \<and>
     monthlyinterestrate c \<noteq> (1 + 0.055 / 2) powr (2 / 12) - 1"
proof -
  have i: "- 200 \<le> (0.055 :: real)" by simp
  let ?c = "\<lparr> principal = 100000, interestrate = 0.055 / 100, amortization_period = 25,
          term_years = 5,
          monthlyinterestrate = (1 + 0.055 / 100 / 2) powr (2 / 12) - 1,
          semimonthlyinterestrate = (1 + 0.055 / 100 / 2) powr (2 / 24) - 1,
          biweeklyinterestrate = (1 + 0.055 / 100 / 2) powr (2 / 26) - 1,
          weeklyinterestrate = (1 + 0.055 / 100 / 2) powr (2 / 52) - 1 \<rparr>"
  have c: "init 100000 0.055 25 5 = Inr ?c" by (rule init_ok [OF i])
  have "(1 + 0.055 / 100 / 2 :: real) powr (2 / 12) < (1 + 0.055 / 2) powr (2 / 12)"
    by (rule powr_less_mono2) simp_all
  then have "monthlyinterestrate ?c \<noteq> (1 + 0.055 / 2) powr (2 / 12) - 1" by simp
  with c show ?thesis by blast
qed

subsection \<open>C3: the four base payments\<close>

text \<open>
  C3.  For an object built by the constructor, each of the four base payments that
  \<open>calculatepayments\<close> returns is the annuity formula over the amortization period
  (the term does not occur): \<open>principal / n\<close> when the plan's periodic rate is zero,
  \<open>principal * r * (1 + r)^n / ((1 + r)^n - 1)\<close> otherwise, with
  \<open>n = amortization * 12\<close> for Monthly, \<open>amortization * 24\<close> for Semi-Monthly and
  \<open>amortization * 12 * (f / 12)\<close> for Bi-Weekly (\<open>f = 26\<close>) and Weekly (\<open>f = 52\<close>);
  \<open>n\<close> is a real number and enters the formula as it is.  The constructor and
  \<open>calculatepayments\<close> return for every rate from -200 percent upwards and every
  positive amortization period.
\<close>

theorem base_payments_annuity:
  "(init P i a t = Inr c \<and> calculatepayments c = Inr pays \<longrightarrow>
      payment_info pays Monthly = annuity_payment P (monthlyinterestrate c) (a * 12) \<and>
      payment_info pays Semi_Monthly =
        annuity_payment P (semimonthlyinterestrate c) (a * 24) \<and>
      payment_info pays Bi_Weekly =
        annuity_payment P (biweeklyinterestrate c) (a * 12 * (26 / 12)) \<and>
      payment_info pays Weekly =
        annuity_payment P (weeklyinterestrate c) (a * 12 * (52 / 12)) \<and>
      annuity_payment P (rates c name) n =
        (if rates c name = 0 then P / n
         else P * (rates c name * (1 + rates c name) powr n) /
              ((1 + rates c name) powr n - 1))) \<and>
   (- 200 \<le> i \<and> 0 < a \<longrightarrow>
      (\<exists>c' pays'. init P i a t = Inr c' \<and> calculatepayments c' = Inr pays'))"
proof (intro conjI; rule impI)
  assume h: "init P i a t = Inr c \<and> calculatepayments c = Inr pays"
  then have c: "init P i a t = Inr c" and cp: "calculatepayments c = Inr pays" by simp_all
  note r = init_rates_ge [OF c]
  note f = init_fields [OF c]
  note p = calculatepayments_Inr(1) [OF cp r, unfolded f]
  have base: "payment_info pays Monthly = annuity_payment P (monthlyinterestrate c) (a * 12) \<and>
     payment_info pays Semi_Monthly = annuity_payment P (semimonthlyinterestrate c) (a * 24) \<and>
     payment_info pays Bi_Weekly =
       annuity_payment P (biweeklyinterestrate c) (a * 12 * (26 / 12)) \<and>
     payment_info pays Weekly =
       annuity_payment P (weeklyinterestrate c) (a * 12 * (52 / 12))"
    using p by (simp add: mult.commute)
  have formula: "annuity_payment P (rates c name) n =
       (if rates c name = 0 then P / n
        else P * (rates c name * (1 + rates c name) powr n) / ((1 + rates c name) powr n - 1))"
    by (simp only: annuity_payment_def)
  from base formula
  show "payment_info pays Monthly = annuity_payment P (monthlyinterestrate c) (a * 12) \<and>
      payment_info pays Semi_Monthly =
        annuity_payment P (semimonthlyinterestrate c) (a * 24) \<and>
      payment_info pays Bi_Weekly =
        annuity_payment P (biweeklyinterestrate c) (a * 12 * (26 / 12)) \<and>
      payment_info pays Weekly =
        annuity_payment P (weeklyinterestrate c) (a * 12 * (52 / 12)) \<and>
      annuity_payment P (rates c name) n =
        (if rates c name = 0 then P / n
         else P * (rates c name * (1 + rates c name) powr n) /
              ((1 + rates c name) powr n - 1))"
    by (simp only: simp_thms)
next
  assume "- 200 \<le> i \<and> 0 < a"
  then have "- 200 \<le> i" "0 < a" by simp_all
  from pipeline_returns [OF this, of P t]
  show "\<exists>c' pays'. init P i a t = Inr c' \<and> calculatepayments c' = Inr pays'" by blast
qed

theorem base_payments_annuity_witness:
  "\<exists>c pays.
     init 1000 12.3040301202 1 1 = Inr c \<and> calculatepayments c = Inr pays \<and>
     monthlyinterestrate c = 0.01 \<and>
     payment_info pays Monthly = annuity_payment 1000 (monthlyinterestrate c) (1 * 12) \<and>
     payment_info pays Monthly = 1000 * (0.01 * (1 + 0.01) powr 12) / ((1 + 0.01) powr 12 - 1) \<and>
     payment_info pays Monthly = 11268250301319697206612010 / 126825030131969720661201"
proof -
  from one_percent_run obtain c pays where
    i: "init 1000 12.3040301202 1 1 = Inr c" and p: "calculatepayments c = Inr pays"
    and r: "monthlyinterestrate c = 0.01"
    and pm: "payment_info pays Monthly =
      11268250301319697206612010 / 126825030131969720661201"
    and pa: "payment_info pays Monthly = annuity_payment 1000 0.01 12"
    by blast
  have formula: "annuity_payment 1000 0.01 12 =
      1000 * (0.01 * (1 + 0.01) powr 12) / ((1 + 0.01) powr 12 - 1)"
    unfolding annuity_payment_def by simp
  from base_payments_annuity
    [where c = c and pays = pays and name = Monthly and n = 12 and P = 1000 and a = 1 and t = 1]
    i p
  have "payment_info pays Monthly = annuity_payment 1000 (monthlyinterestrate c) (1 * 12)"
    by blast
  then show ?thesis
    by (intro exI [of _ c] exI [of _ pays] conjI i p r pm) (simp_all only: pa [symmetric] formula [symmetric])
qed

subsection \<open>C4: adjacent rows\<close>

text \<open>
  C4.  In every schedule of every plan, the ending balance of a row is the beginning
  balance of the row after it.
\<close>

theorem adjacent_rows_chain:
  assumes "generate_schedule c = Inr schedules"
    and "Suc k < length (schedules name)"
  shows "Ending_Balance (schedules name ! k) = Beginning_Balance (schedules name ! Suc k)"
proof -
  from assms(1) obtain pays where s: "schedules = plan_schedule c pays"
    by (auto simp: generate_schedule_Inr)
  have k: "k < length (plan_schedule c pays name)" using assms(2) s by simp
  have "Beginning_Balance (plan_schedule c pays name ! Suc k) =
      np_round2 (Ending_Balance (plan_schedule c pays name ! k))"
    using plan_schedule_nth [of "Suc k" c pays name] assms(2) s
    by (simp add: Beginning_Balance_period_row)
  also have "\<dots> = Ending_Balance (plan_schedule c pays name ! k)"
    by (subst (1 2) plan_schedule_nth [OF k]) (rule Ending_Balance_rounded)
  finally show ?thesis by (simp add: s)
qed

theorem adjacent_rows_chain_witness:
  "\<exists>c schedules.
     init 200 0 1 1 = Inr c \<and> generate_schedule c = Inr schedules \<and>
     Suc 10 < length (schedules Monthly) \<and>
     Ending_Balance (schedules Monthly ! 10) = 16.63 \<and>
     Beginning_Balance (schedules Monthly ! Suc 10) = 16.63"
proof -
  from zero_rate_run obtain c pays where
    i: "init 200 0 1 1 = Inr c"
    and g: "generate_schedule c = Inr (plan_schedule c pays)"
    and m: "plan_schedule c pays Monthly = schedule_loop (50 / 3) 0 1 12 200"
    by blast
  have len: "Suc 10 < length (plan_schedule c pays Monthly)"
    by (simp only: m zero_rate_monthly) simp
  have e: "Ending_Balance (plan_schedule c pays Monthly ! 10) = 16.63"
    by (simp only: m zero_rate_monthly) simp
  have len': "11 < length (plan_schedule c pays Monthly)" using len by simp
  from adjacent_rows_chain [OF g len] e
  have "Beginning_Balance (plan_schedule c pays Monthly ! 11) = 16.63" by simp
  then show ?thesis
    by (intro exI [of _ c] exI [of _ "plan_schedule c pays"]) (simp add: i g len' e)
qed

subsection \<open>C5: the ending balances\<close>

text \<open>
  C5, as the code has it.  No ending balance of a generated schedule is negative.  When
  the principal is a whole number of cents and not negative, and the amortization period
  is positive, the ending balances of every plan's schedule never increase from one row
  to the next.
\<close>

theorem ending_balances:
  assumes "generate_schedule c = Inr schedules"
    and "k < length (schedules name)"
  shows "0 \<le> Ending_Balance (schedules name ! k) \<and>
    (init P i a t = Inr c \<and> P = real_of_int m / 100 \<and> 0 \<le> m \<and> 0 < a \<and> 0 < k \<longrightarrow>
       Ending_Balance (schedules name ! k) \<le> Ending_Balance (schedules name ! (k - 1)))"
proof (intro conjI impI)
  from assms(1) obtain pays where p: "calculatepayments c = Inr pays"
    and s: "schedules = plan_schedule c pays"
    by (auto simp: generate_schedule_Inr)
  have k: "k < length (plan_schedule c pays name)" using assms(2) s by simp
  show "0 \<le> Ending_Balance (schedules name ! k)"
    unfolding s by (subst plan_schedule_nth [OF k]) (rule Ending_Balance_nonneg)
  assume h: "init P i a t = Inr c \<and> P = real_of_int m / 100 \<and> 0 \<le> m \<and> 0 < a \<and> 0 < k"
  then have c: "init P i a t = Inr c" and P: "0 \<le> P" and a: "0 < a" and k0: "0 < k"
    by simp_all
  have cents: "np_round2 P = P"
  proof -
    from h have e: "P = real_of_int m / 100" by blast
    show ?thesis unfolding e by (rule np_round2_cents)
  qed
  have pc: "principal c = P" by (rule init_fields(1) [OF c])
  have "Ending_Balance (plan_schedule c pays name ! k) \<le>
    (if k = 0 then P else Ending_Balance (plan_schedule c pays name ! (k - 1)))"
    using k unfolding plan_schedule_def pc
    by (intro schedule_loop_nonincreasing cents P
        plan_principal_portion_nonneg [OF c p P a])
  then show "Ending_Balance (schedules name ! k) \<le> Ending_Balance (schedules name ! (k - 1))"
    using k0 by (simp add: s)
qed

theorem ending_balances_witness:
  "\<exists>c schedules.
     init (real_of_int 20000 / 100) 0 1 1 = Inr c \<and> generate_schedule c = Inr schedules \<and>
     11 < length (schedules Monthly) \<and>
     Ending_Balance (schedules Monthly ! 10) = 16.63 \<and>
     0 \<le> Ending_Balance (schedules Monthly ! 11) \<and>
     Ending_Balance (schedules Monthly ! 11) \<le> Ending_Balance (schedules Monthly ! 10)"
proof -
  from zero_rate_run obtain c pays where
    i: "init 200 0 1 1 = Inr c"
    and g: "generate_schedule c = Inr (plan_schedule c pays)"
    and m: "plan_schedule c pays Monthly = schedule_loop (50 / 3) 0 1 12 200"
    by blast
  have i': "init (real_of_int 20000 / 100) 0 1 1 = Inr c" using i by simp
  have len: "11 < length (plan_schedule c pays Monthly)"
    by (simp only: m zero_rate_monthly) simp
  have e: "Ending_Balance (plan_schedule c pays Monthly ! 10) = 16.63"
    by (simp only: m zero_rate_monthly) simp
  from ending_balances [OF g len, of "real_of_int 20000 / 100" 0 1 1 20000] i'
  have "0 \<le> Ending_Balance (plan_schedule c pays Monthly ! 11) \<and>
     Ending_Balance (plan_schedule c pays Monthly ! 11) \<le>
       Ending_Balance (plan_schedule c pays Monthly ! 10)"
    by simp
  then show ?thesis
    by (intro exI [of _ c] exI [of _ "plan_schedule c pays"]) (simp add: i g len e)
qed

text \<open>
  The claim as written fails: with a principal of 100.0051, a yearly rate of 145600
  percent (a monthly rate of 2), one year of amortization and one year of term, the
  monthly schedule's ending balance rises from 100.01 in the first row to 100.02 in the
  second.
\<close>

theorem ending_balances_counterexample:
  "\<exists>c schedules.
     init 100.0051 145600 1 1 = Inr c \<and> generate_schedule c = Inr schedules \<and>
     monthlyinterestrate c = 2 \<and>
     1 < length (schedules Monthly) \<and>
     Ending_Balance (schedules Monthly ! 0) = 100.01 \<and>
     Ending_Balance (schedules Monthly ! 1) = 100.02 \<and>
     Ending_Balance (schedules Monthly ! 0) < Ending_Balance (schedules Monthly ! 1)"
proof -
  have "- 200 \<le> (145600 :: real)" by simp
  from init_ok [OF this, of "100.0051" 1 1] obtain c where
    c: "init 100.0051 145600 1 1 = Inr c" by blast
  note f = init_fields [OF c]
  have r: "monthlyinterestrate c = 2"
    by (simp add: init_Inr(2) [OF c] sixth_root_729)
  have a: "0 < amortization_period c" by (simp add: f)
  from calculatepayments_ok [OF a init_rates_ge [OF c]] obtain pays where
    p: "calculatepayments c = Inr pays"
    and m: "payment_info pays Monthly =
      annuity_payment (principal c) (monthlyinterestrate c) (amortization_period c * 12)"
    by simp
  have pm: "payment_info pays Monthly = 40882161807 / 204400000"
    unfolding m r f by (simp add: annuity_payment_def)
  have g: "generate_schedule c = Inr (plan_schedule c pays)"
    by (simp add: generate_schedule_Inr p)
  have n: "nat (total_term_payments c Monthly) = Suc (Suc 10)"
    by (simp add: total_term_payments_def f)
  have s: "plan_schedule c pays Monthly =
     \<lparr>Period = 1, Beginning_Balance = 100.01, Payment = 200.01, Interest_Paid = 200.01,
      Principal_Paid = 0, Ending_Balance = 100.01\<rparr> #
     \<lparr>Period = 2, Beginning_Balance = 100.01, Payment = 200.01, Interest_Paid = 200.02,
      Principal_Paid = - 0.01, Ending_Balance = 100.02\<rparr> #
     schedule_loop (40882161807 / 204400000) 2 3 10 100.02"
    unfolding plan_schedule_def n pm rates.simps r f by (rule rising_balance_rows)
  show ?thesis
    by (intro exI [of _ c] exI [of _ "plan_schedule c pays"] conjI c g r) (simp_all add: s)
qed

subsection \<open>C6: the length of a schedule and its last row\<close>

text \<open>
  C6.  For every plan and a positive term, the schedule is not empty and has at most
  \<open>term * frequency\<close> rows, where the frequency of the two rapid plans is 26 and 52;
  every row but the last has a positive ending balance, so the loop stops at the first
  row whose ending balance is zero; the last row's ending balance is zero exactly when
  some row reached zero, and a last row with another ending balance has a positive one
  and is row number \<open>term * frequency\<close>.
\<close>

theorem schedule_length_and_payoff:
  assumes "generate_schedule c = Inr schedules"
    and "0 < term_years c"
  shows
    "let s = schedules name; totalTermPeriods = term_years c * frequencies name
     in s \<noteq> [] \<and>
        int (length s) \<le> totalTermPeriods \<and>
        frequencies Rapid_Bi_Weekly = 26 \<and> frequencies Rapid_Weekly = 52 \<and>
        (\<forall>k. Suc k < length s \<longrightarrow> 0 < Ending_Balance (s ! k)) \<and>
        (Ending_Balance (last s) = 0 \<longleftrightarrow> (\<exists>k < length s. Ending_Balance (s ! k) \<le> 0)) \<and>
        (Ending_Balance (last s) \<noteq> 0 \<longrightarrow>
           int (length s) = totalTermPeriods \<and> 0 < Ending_Balance (last s))"
proof -
  from assms(1) obtain pays where s: "schedules = plan_schedule c pays"
    by (auto simp: generate_schedule_Inr)
  let ?s = "plan_schedule c pays name"
  let ?n = "nat (term_years c * frequencies name)"
  have total: "0 < term_years c * frequencies name"
    using assms(2) frequencies_pos [of name] by simp
  then have n: "0 < ?n" by simp
  have ne: "?s \<noteq> []"
    unfolding plan_schedule_def total_term_payments_def using n by (rule schedule_loop_nonempty)
  have len: "int (length ?s) \<le> term_years c * frequencies name"
    using plan_schedule_length [of c pays name] total by simp
  have inner: "\<forall>k. Suc k < length ?s \<longrightarrow> 0 < Ending_Balance (?s ! k)"
    unfolding plan_schedule_def by (auto intro: schedule_loop_inner_positive)
  have last: "Ending_Balance (last ?s) = 0 \<or>
      (length ?s = ?n \<and> 0 < Ending_Balance (last ?s))"
    using ne unfolding plan_schedule_def total_term_payments_def by (rule schedule_loop_last)
  have lastk: "last ?s = ?s ! (length ?s - 1)" using ne by (rule last_conv_nth)
  have iff: "Ending_Balance (last ?s) = 0 \<longleftrightarrow> (\<exists>k < length ?s. Ending_Balance (?s ! k) \<le> 0)"
  proof
    assume "Ending_Balance (last ?s) = 0"
    then have "Ending_Balance (?s ! (length ?s - 1)) \<le> 0" using lastk by simp
    moreover have "length ?s - 1 < length ?s" using ne by simp
    ultimately show "\<exists>k < length ?s. Ending_Balance (?s ! k) \<le> 0" by blast
  next
    assume "\<exists>k < length ?s. Ending_Balance (?s ! k) \<le> 0"
    then obtain k where k: "k < length ?s" and z: "Ending_Balance (?s ! k) \<le> 0" by blast
    have "\<not> Suc k < length ?s" using inner z by fastforce
    then have "k = length ?s - 1" using k by simp
    then have "Ending_Balance (last ?s) \<le> 0" using z lastk by simp
    then show "Ending_Balance (last ?s) = 0" using last by auto
  qed
  have pos: "Ending_Balance (last ?s) \<noteq> 0 \<longrightarrow>
      int (length ?s) = term_years c * frequencies name \<and> 0 < Ending_Balance (last ?s)"
    using last total by auto
  show ?thesis
    unfolding Let_def s using ne len inner iff pos by simp
qed

theorem schedule_length_and_payoff_witness:
  "\<exists>c schedules.
     init 200 0 1 1 = Inr c \<and> generate_schedule c = Inr schedules \<and> 0 < term_years c \<and>
     schedules Monthly \<noteq> [] \<and>
     int (length (schedules Monthly)) \<le> term_years c * frequencies Monthly \<and>
     0 < Ending_Balance (schedules Monthly ! 10) \<and>
     Ending_Balance (last (schedules Monthly)) = 0 \<and>
     (\<exists>k < length (schedules Monthly). Ending_Balance (schedules Monthly ! k) \<le> 0)"
proof -
  from zero_rate_run obtain c pays where
    i: "init 200 0 1 1 = Inr c"
    and g: "generate_schedule c = Inr (plan_schedule c pays)"
    and t: "term_years c = 1"
    and m: "plan_schedule c pays Monthly = schedule_loop (50 / 3) 0 1 12 200"
    by blast
  have pos: "0 < term_years c" by (simp add: t)
  have len: "Suc 10 < length (plan_schedule c pays Monthly)"
    by (simp only: m zero_rate_monthly) simp
  have l: "Ending_Balance (last (plan_schedule c pays Monthly)) = 0"
    by (simp only: m zero_rate_monthly) simp
  from schedule_length_and_payoff [OF g pos, of Monthly] len l
  have "plan_schedule c pays Monthly \<noteq> [] \<and>
     int (length (plan_schedule c pays Monthly)) \<le> term_years c * frequencies Monthly \<and>
     0 < Ending_Balance (plan_schedule c pays Monthly ! 10) \<and>
     (\<exists>k < length (plan_schedule c pays Monthly).
        Ending_Balance (plan_schedule c pays Monthly ! k) \<le> 0)"
    unfolding Let_def by blast
  then show ?thesis
    by (intro exI [of _ c] exI [of _ "plan_schedule c pays"]) (simp add: i g pos l)
qed

subsection \<open>C7: the two rapid payments\<close>

text \<open>
  C7.  Whatever the inputs, when \<open>calculatepayments\<close> returns (it does for every
  rate from -200 percent upwards and every positive amortization period), the Rapid
  Bi-Weekly payment is the Monthly payment divided by 2 and the Rapid Weekly payment is
  the Monthly payment divided by 4, where the Monthly payment is the annuity formula at
  the monthly rate over \<open>amortization * 12\<close> periods; neither is the annuity formula
  at the bi-weekly or weekly rate.
\<close>

theorem rapid_payments:
  "(init P i a t = Inr c \<and> calculatepayments c = Inr pays \<longrightarrow>
      payment_info pays Rapid_Bi_Weekly = payment_info pays Monthly / 2 \<and>
      payment_info pays Rapid_Weekly = payment_info pays Monthly / 4 \<and>
      payment_info pays Monthly = annuity_payment P (monthlyinterestrate c) (a * 12)) \<and>
   (- 200 \<le> i \<and> 0 < a \<longrightarrow>
      (\<exists>c' pays'. init P i a t = Inr c' \<and> calculatepayments c' = Inr pays'))"
proof (intro conjI; rule impI)
  assume h: "init P i a t = Inr c \<and> calculatepayments c = Inr pays"
  then have c: "init P i a t = Inr c" and cp: "calculatepayments c = Inr pays" by simp_all
  note r = init_rates_ge [OF c]
  note f = init_fields [OF c]
  note p = calculatepayments_Inr(1) [OF cp r, unfolded f]
  from p show "payment_info pays Rapid_Bi_Weekly = payment_info pays Monthly / 2 \<and>
      payment_info pays Rapid_Weekly = payment_info pays Monthly / 4 \<and>
      payment_info pays Monthly = annuity_payment P (monthlyinterestrate c) (a * 12)"
    by simp
next
  assume "- 200 \<le> i \<and> 0 < a"
  then have "- 200 \<le> i" "0 < a" by simp_all
  from pipeline_returns [OF this, of P t]
  show "\<exists>c' pays'. init P i a t = Inr c' \<and> calculatepayments c' = Inr pays'" by blast
qed

theorem rapid_payments_witness:
  "\<exists>c pays.
     init 1000 12.3040301202 1 1 = Inr c \<and> calculatepayments c = Inr pays \<and>
     payment_info pays Monthly = annuity_payment 1000 0.01 12 \<and>
     payment_info pays Rapid_Bi_Weekly = annuity_payment 1000 0.01 12 / 2 \<and>
     payment_info pays Rapid_Weekly = annuity_payment 1000 0.01 12 / 4"
proof -
  from one_percent_run obtain c pays where
    i: "init 1000 12.3040301202 1 1 = Inr c" and p: "calculatepayments c = Inr pays"
    and pa: "payment_info pays Monthly = annuity_payment 1000 0.01 12"
    by blast
  from rapid_payments [where c = c and pays = pays and P = 1000 and a = 1 and t = 1] i p
  have "payment_info pays Rapid_Bi_Weekly = annuity_payment 1000 0.01 12 / 2 \<and>
     payment_info pays Rapid_Weekly = annuity_payment 1000 0.01 12 / 4"
    unfolding pa by blast
  then show ?thesis using i p pa by blast
qed

subsection \<open>C8: a rate of zero\<close>

text \<open>
  C8, as the code has it.  At a yearly rate of zero and an amortization period other
  than zero, nothing raises: each of the four base payments is \<open>principal / n\<close> with the
  \<open>n\<close> of its plan (\<open>amortization * 12\<close>, \<open>* 24\<close>, \<open>* 12 * (26 / 12)\<close>,
  \<open>* 12 * (52 / 12)\<close>), the two rapid payments are half and a quarter of the monthly
  one, that is \<open>principal / (amortization * 24)\<close> and \<open>principal / (amortization * 48)\<close>,
  and every row of every one of the six schedules has an interest of zero.
\<close>

theorem rate_zero_branch:
  assumes "a \<noteq> 0"
  shows
    "\<exists>c pays schedules.
       init P 0 a t = Inr c \<and> calculatepayments c = Inr pays \<and>
       generate_schedule c = Inr schedules \<and>
       payment_info pays Monthly = P / (a * 12) \<and>
       payment_info pays Semi_Monthly = P / (a * 12 * 2) \<and>
       payment_info pays Bi_Weekly = P / (a * 12 * (26 / 12)) \<and>
       payment_info pays Weekly = P / (a * 12 * (52 / 12)) \<and>
       payment_info pays Rapid_Bi_Weekly = P / (a * 12) / 2 \<and>
       payment_info pays Rapid_Weekly = P / (a * 12) / 4 \<and>
       payment_info pays Rapid_Bi_Weekly = P / (a * 24) \<and>
       payment_info pays Rapid_Weekly = P / (a * 48) \<and>
       (\<forall>name. \<forall>r \<in> set (schedules name). Interest_Paid r = 0)"
proof -
  let ?c = "\<lparr> principal = P, interestrate = 0, amortization_period = a, term_years = t,
    monthlyinterestrate = 0, semimonthlyinterestrate = 0, biweeklyinterestrate = 0,
    weeklyinterestrate = 0 \<rparr>"
  let ?p = "(P / (a * 12), P / (a * 12 * 2), P / (a * 12 * (26 / 12)),
    P / (a * 12 * (52 / 12)), P / (a * 12) / 2, P / (a * 12) / 4) :: payments"
  have i: "init P 0 a t = Inr ?c"
    by (simp add: init_def py_pow_def bind_err_simps)
  have p: "calculatepayments ?c = Inr ?p"
    using assms
    by (simp add: calculatepayments_def calculate_payment_def py_truediv_def bind_err_simps)
  have g: "generate_schedule ?c = Inr (plan_schedule ?c ?p)"
    by (simp only: generate_schedule_def p bind_err_simps)
  have r: "rates ?c name = 0" for name by (cases name) simp_all
  have z: "\<forall>name. \<forall>r \<in> set (plan_schedule ?c ?p name). Interest_Paid r = 0"
  proof (intro allI ballI)
    fix name r
    assume "r \<in> set (plan_schedule ?c ?p name)"
    then obtain j b where "r = period_row (payment_info ?p name) (rates ?c name) j b"
      unfolding plan_schedule_def by (auto dest: schedule_loop_rows)
    then show "Interest_Paid r = 0"
      by (simp only: r Interest_Paid_period_row) (simp add: np_round2_0)
  qed
  show ?thesis
    by (rule exI [of _ ?c], rule exI [of _ ?p], rule exI [of _ "plan_schedule ?c ?p"],
        intro conjI i p g z) simp_all
qed

theorem rate_zero_branch_witness:
  "(1 :: real) \<noteq> 0 \<and>
   (\<exists>c pays schedules.
       init 200 0 1 1 = Inr c \<and> calculatepayments c = Inr pays \<and>
       generate_schedule c = Inr schedules \<and>
       payment_info pays Monthly = 200 / (1 * 12) \<and>
       payment_info pays Rapid_Bi_Weekly = 200 / (1 * 24) \<and>
       (\<forall>name. \<forall>r \<in> set (schedules name). Interest_Paid r = 0))"
proof -
  have a: "(1 :: real) \<noteq> 0" by simp
  from rate_zero_branch [OF a, of 200 1] show ?thesis by (simp only: a simp_thms) blast
qed

text \<open>
  The claim as written fails for the rapid plans when \<open>n\<close> is read as the periods of the
  plan's own frequency: at a rate of zero, a principal of 2600 amortized over one year
  has 26 bi-weekly periods, and the Rapid Bi-Weekly payment is not \<open>2600 / 26\<close>.
\<close>

theorem rapid_payment_at_rate_zero_counterexample:
  "\<exists>c pays.
     init 2600 0 1 1 = Inr c \<and> calculatepayments c = Inr pays \<and>
     payment_info pays Rapid_Bi_Weekly = 325 / 3 \<and>
     principal c / (amortization_period c * real_of_int (frequencies Rapid_Bi_Weekly)) = 100 \<and>
     payment_info pays Rapid_Bi_Weekly \<noteq>
       principal c / (amortization_period c * real_of_int (frequencies Rapid_Bi_Weekly))"
proof -
  let ?c = "\<lparr> principal = 2600, interestrate = 0, amortization_period = 1, term_years = 1,
    monthlyinterestrate = 0, semimonthlyinterestrate = 0, biweeklyinterestrate = 0,
    weeklyinterestrate = 0 \<rparr>"
  let ?p = "(650 / 3, 325 / 3, 100, 50, 325 / 3, 325 / 6) :: payments"
  have i: "init 2600 0 1 1 = Inr ?c"
    by (simp add: init_def py_pow_def bind_err_simps)
  have p: "calculatepayments ?c = Inr ?p"
    by (simp add: calculatepayments_def calculate_payment_def py_truediv_def bind_err_simps)
  show ?thesis
    by (rule exI [of _ ?c], rule exI [of _ ?p]) (simp only: i p, simp)
qed

subsection \<open>C9: running twice\<close>

text \<open>
  C9.  Two runs, one after the other, on objects with the same fields (the same object
  twice, or two objects built from the same parameters), starting from any heap \<open>h\<close>:
  each run is a call of \<open>calculatepayments\<close> and a call of \<open>generate_schedule\<close>, and
  the second run starts from the heap \<open>h1\<close> that the first one leaves, with the lists
  and dictionaries the first run created still in it.  All four calls return.  Both calls
  of \<open>calculatepayments\<close> return the same payments, those that the fields of the object
  determine.  Every object that existed before a call of \<open>generate_schedule\<close> is after
  the call what it was before: the call changes only objects that it has created itself.
  Either both calls of \<open>generate_schedule\<close> raise the same error, or they return two
  different dictionaries that hold the same six schedules, those that the fields of the
  object determine, and the second call leaves the dictionary of the first as it was.
\<close>

theorem deterministic_pipeline:
  assumes "get_instance self h = Some c" and "get_instance self' h = Some c"
  shows "\<exists>p1 g1 h1 p2 g2 h2.
    calculatepayments_heap self h = Some (p1, h) \<and>
    generate_schedule_heap self h = Some (g1, h1) \<and>
    calculatepayments_heap self' h1 = Some (p2, h1) \<and>
    generate_schedule_heap self' h1 = Some (g2, h2) \<and>
    take (length h) h1 = h \<and> take (length h1) h2 = h1 \<and>
    p1 = calculatepayments c \<and> p2 = p1 \<and>
    (case generate_schedule c of
       Inl e \<Rightarrow> g1 = Inl e \<and> g2 = Inl e
     | Inr schedules \<Rightarrow>
         (\<exists>d1 d2. g1 = Inr d1 \<and> g2 = Inr d2 \<and> d1 \<noteq> d2 \<and>
            get_schedules d1 h1 = Some (\<lambda>name. Some (schedules name)) \<and>
            get_schedules d1 h2 = Some (\<lambda>name. Some (schedules name)) \<and>
            get_schedules d2 h2 = Some (\<lambda>name. Some (schedules name))))"
proof -
  from generate_schedule_heap_refines [OF assms(1)] obtain g1 h1 where r1:
    "generate_schedule_heap self h = Some (g1, h1)" "take (length h) h1 = h"
    "case generate_schedule c of
       Inl e \<Rightarrow> g1 = Inl e \<and> h1 = h
     | Inr schedules \<Rightarrow>
         g1 = Inr (length h) \<and> length h < length h1 \<and>
         get_schedules (length h) h1 = Some (\<lambda>name. Some (schedules name))"
    by blast
  have i2: "get_instance self' h1 = Some c"
    using r1(2) assms(2) by (rule get_instance_take)
  from generate_schedule_heap_refines [OF i2] obtain g2 h2 where r2:
    "generate_schedule_heap self' h1 = Some (g2, h2)" "take (length h1) h2 = h1"
    "case generate_schedule c of
       Inl e \<Rightarrow> g2 = Inl e \<and> h2 = h1
     | Inr schedules \<Rightarrow>
         g2 = Inr (length h1) \<and> length h1 < length h2 \<and>
         get_schedules (length h1) h2 = Some (\<lambda>name. Some (schedules name))"
    by blast
  have c1: "calculatepayments_heap self h = Some (calculatepayments c, h)"
    using assms(1) by (rule calculatepayments_heap_reads)
  have c2: "calculatepayments_heap self' h1 = Some (calculatepayments c, h1)"
    using i2 by (rule calculatepayments_heap_reads)
  have res: "case generate_schedule c of
       Inl e \<Rightarrow> g1 = Inl e \<and> g2 = Inl e
     | Inr schedules \<Rightarrow>
         (\<exists>d1 d2. g1 = Inr d1 \<and> g2 = Inr d2 \<and> d1 \<noteq> d2 \<and>
            get_schedules d1 h1 = Some (\<lambda>name. Some (schedules name)) \<and>
            get_schedules d1 h2 = Some (\<lambda>name. Some (schedules name)) \<and>
            get_schedules d2 h2 = Some (\<lambda>name. Some (schedules name)))"
  proof (cases "generate_schedule c")
    case (Inl e)
    then show ?thesis using r1(3) r2(3) by simp
  next
    case (Inr schedules)
    from r1(3) Inr have a: "g1 = Inr (length h)" "length h < length h1"
      "get_schedules (length h) h1 = Some (\<lambda>name. Some (schedules name))"
      by simp_all
    from r2(3) Inr have b: "g2 = Inr (length h1)"
      "get_schedules (length h1) h2 = Some (\<lambda>name. Some (schedules name))"
      by simp_all
    have k: "get_schedules (length h) h2 = Some (\<lambda>name. Some (schedules name))"
      using r2(2) a(3) by (rule get_schedules_take)
    have ne: "length h \<noteq> length h1" using a(2) by simp
    show ?thesis
      unfolding Inr sum.case
      by (intro exI [of _ "length h"] exI [of _ "length h1"] conjI a(1) b(1) ne a(3) k b(2))
  qed
  show ?thesis
    by (intro exI [of _ "calculatepayments c"] exI [of _ g1] exI [of _ h1] exI [of _ g2]
        exI [of _ h2] conjI c1 r1(1) c2 r2(1) r1(2) r2(2) refl res)
qed

theorem deterministic_pipeline_witness:
  "\<exists>c pays d1 d2 h1 h2.
     init 200 0 1 1 = Inr c \<and> calculatepayments c = Inr pays \<and>
     get_instance 0 [Instance c] = Some c \<and>
     calculatepayments_heap 0 [Instance c] = Some (Inr pays, [Instance c]) \<and>
     generate_schedule_heap 0 [Instance c] = Some (Inr d1, h1) \<and>
     calculatepayments_heap 0 h1 = Some (Inr pays, h1) \<and>
     generate_schedule_heap 0 h1 = Some (Inr d2, h2) \<and>
     d1 \<noteq> d2 \<and> h1 \<noteq> [Instance c] \<and>
     get_schedules d1 h2 = Some (\<lambda>name. Some (plan_schedule c pays name)) \<and>
     get_schedules d2 h2 = Some (\<lambda>name. Some (plan_schedule c pays name)) \<and>
     plan_schedule c pays Monthly = schedule_loop (50 / 3) 0 1 12 200"
proof -
  from zero_rate_run obtain c pays where
    i: "init 200 0 1 1 = Inr c" and p: "calculatepayments c = Inr pays"
    and g: "generate_schedule c = Inr (plan_schedule c pays)"
    and m: "plan_schedule c pays Monthly = schedule_loop (50 / 3) 0 1 12 200"
    by blast
  have s: "get_instance 0 [Instance c] = Some c"
    by (simp add: get_instance_def get_obj_def)
  from deterministic_pipeline [OF s s] obtain p1 g1 h1 p2 g2 h2 where r:
    "calculatepayments_heap 0 [Instance c] = Some (p1, [Instance c])"
    "generate_schedule_heap 0 [Instance c] = Some (g1, h1)"
    "calculatepayments_heap 0 h1 = Some (p2, h1)"
    "generate_schedule_heap 0 h1 = Some (g2, h2)"
    "p1 = calculatepayments c" "p2 = p1"
    and "\<exists>d1 d2. g1 = Inr d1 \<and> g2 = Inr d2 \<and> d1 \<noteq> d2 \<and>
            get_schedules d1 h1 = Some (\<lambda>name. Some (plan_schedule c pays name)) \<and>
            get_schedules d1 h2 = Some (\<lambda>name. Some (plan_schedule c pays name)) \<and>
            get_schedules d2 h2 = Some (\<lambda>name. Some (plan_schedule c pays name))"
    unfolding g sum.case by blast
  then obtain d1 d2 where d: "g1 = Inr d1" "g2 = Inr d2" "d1 \<noteq> d2"
    "get_schedules d1 h1 = Some (\<lambda>name. Some (plan_schedule c pays name))"
    "get_schedules d1 h2 = Some (\<lambda>name. Some (plan_schedule c pays name))"
    "get_schedules d2 h2 = Some (\<lambda>name. Some (plan_schedule c pays name))"
    by blast
  have ne: "h1 \<noteq> [Instance c]"
  proof
    assume "h1 = [Instance c]"
    with d(4) show False
      by (auto simp: get_schedules_def get_obj_def split: if_splits)
  qed
  have c1: "calculatepayments_heap 0 [Instance c] = Some (Inr pays, [Instance c])"
    using r(1) by (simp add: r(5) p)
  have c2: "calculatepayments_heap 0 h1 = Some (Inr pays, h1)"
    using r(3) by (simp add: r(5,6) p)
  have g1: "generate_schedule_heap 0 [Instance c] = Some (Inr d1, h1)"
    using r(2) by (simp add: d(1))
  have g2: "generate_schedule_heap 0 h1 = Some (Inr d2, h2)"
    using r(4) by (simp add: d(2))
  show ?thesis
    by (intro exI [of _ c] exI [of _ pays] exI [of _ d1] exI [of _ d2] exI [of _ h1]
        exI [of _ h2] conjI i p s c1 g1 c2 g2 d(3) ne d(5) d(6) m)
qed

subsection \<open>C10: the payment column\<close>

text \<open>
  C10.  In every generated schedule the payment column holds the same value in every
  row, the plan's payment rounded to two decimals, while the row's principal portion is
  computed from the payment as it is, not rounded: it is the rounded difference of the
  payment and the row's interest, or, in a row that pays the loan off, the balance the
  row started from.  For some inputs interest plus principal of a row differ from its
  payment column, and the payment column of a row that pays the loan off does not show
  the smaller amount paid: with a principal of 200, a rate of zero, one year of
  amortization and one year of term, the twelfth monthly row pays 16.63 while its
  payment column says 16.67.
\<close>

theorem payment_column:
  "(generate_schedule c = Inr schedules \<and> calculatepayments c = Inr pays \<and>
    k < length (schedules name) \<longrightarrow>
      Payment (schedules name ! k) = np_round2 (payment_info pays name) \<and>
      (Principal_Paid (schedules name ! k) =
         np_round2 (payment_info pays name - Interest_Paid (schedules name ! k)) \<or>
       Ending_Balance (schedules name ! k) = 0 \<and>
       Principal_Paid (schedules name ! k) =
         (if k = 0 then principal c else Ending_Balance (schedules name ! (k - 1))))) \<and>
   (\<exists>c' schedules' pays'.
      init 200 0 1 1 = Inr c' \<and> generate_schedule c' = Inr schedules' \<and>
      calculatepayments c' = Inr pays' \<and>
      11 < length (schedules' Monthly) \<and>
      payment_info pays' Monthly = 50 / 3 \<and>
      Payment (schedules' Monthly ! 11) = 16.67 \<and>
      Interest_Paid (schedules' Monthly ! 11) = 0 \<and>
      Principal_Paid (schedules' Monthly ! 11) = 16.63 \<and>
      Ending_Balance (schedules' Monthly ! 11) = 0 \<and>
      Interest_Paid (schedules' Monthly ! 11) + Principal_Paid (schedules' Monthly ! 11)
        \<noteq> Payment (schedules' Monthly ! 11))"
proof (intro conjI impI)
  assume a: "generate_schedule c = Inr schedules \<and> calculatepayments c = Inr pays \<and>
    k < length (schedules name)"
  then have s: "schedules = plan_schedule c pays"
    by (auto simp: generate_schedule_Inr)
  from a have k: "k < length (plan_schedule c pays name)" by (simp add: s)
  show "Payment (schedules name ! k) = np_round2 (payment_info pays name)"
    unfolding s by (subst plan_schedule_nth [OF k]) (rule Payment_period_row)
  show "Principal_Paid (schedules name ! k) =
         np_round2 (payment_info pays name - Interest_Paid (schedules name ! k)) \<or>
       Ending_Balance (schedules name ! k) = 0 \<and>
       Principal_Paid (schedules name ! k) =
         (if k = 0 then principal c else Ending_Balance (schedules name ! (k - 1)))"
    unfolding s
    by (subst (1 2 3 4) plan_schedule_nth [OF k])
      (simp add: Principal_Paid_period_row Interest_Paid_period_row Ending_Balance_period_row)
next
  from zero_rate_run obtain c pays where
    i: "init 200 0 1 1 = Inr c" and p: "calculatepayments c = Inr pays"
    and g: "generate_schedule c = Inr (plan_schedule c pays)"
    and f: "payment_info pays Monthly = 50 / 3"
    and m: "plan_schedule c pays Monthly = schedule_loop (50 / 3) 0 1 12 200"
    by blast
  have len: "11 < length (plan_schedule c pays Monthly)"
    by (simp only: m zero_rate_monthly) simp
  have r: "plan_schedule c pays Monthly ! 11 =
      \<lparr>Period = 12, Beginning_Balance = 16.63, Payment = 16.67, Interest_Paid = 0,
       Principal_Paid = 16.63, Ending_Balance = 0\<rparr>"
    by (simp only: m zero_rate_monthly) simp
  show "\<exists>c' schedules' pays'.
      init 200 0 1 1 = Inr c' \<and> generate_schedule c' = Inr schedules' \<and>
      calculatepayments c' = Inr pays' \<and>
      11 < length (schedules' Monthly) \<and>
      payment_info pays' Monthly = 50 / 3 \<and>
      Payment (schedules' Monthly ! 11) = 16.67 \<and>
      Interest_Paid (schedules' Monthly ! 11) = 0 \<and>
      Principal_Paid (schedules' Monthly ! 11) = 16.63 \<and>
      Ending_Balance (schedules' Monthly ! 11) = 0 \<and>
      Interest_Paid (schedules' Monthly ! 11) + Principal_Paid (schedules' Monthly ! 11)
        \<noteq> Payment (schedules' Monthly ! 11)"
    by (intro exI [of _ c] exI [of _ "plan_schedule c pays"] exI [of _ pays])
      (simp add: i p g f len r)
qed

theorem payment_column_witness:
  "\<exists>c schedules pays.
     init 200 0 1 1 = Inr c \<and> generate_schedule c = Inr schedules \<and>
     calculatepayments c = Inr pays \<and> 3 < length (schedules Monthly) \<and>
     Payment (schedules Monthly ! 3) = np_round2 (50 / 3) \<and>
     Payment (schedules Monthly ! 3) = 16.67"
proof -
  from zero_rate_run obtain c pays where
    i: "init 200 0 1 1 = Inr c" and p: "calculatepayments c = Inr pays"
    and g: "generate_schedule c = Inr (plan_schedule c pays)"
    and f: "payment_info pays Monthly = 50 / 3"
    and m: "plan_schedule c pays Monthly = schedule_loop (50 / 3) 0 1 12 200"
    by blast
  have len: "3 < length (plan_schedule c pays Monthly)"
    by (simp only: m zero_rate_monthly) simp
  have r: "np_round2 (50 / 3) = 16.67" by (simp add: np_round2_def rint_eval)
  from payment_column [of c "plan_schedule c pays" pays 3 Monthly] g p len
  have "Payment (plan_schedule c pays Monthly ! 3) = np_round2 (50 / 3)"
    by (simp add: f)
  then show ?thesis
    by (intro exI [of _ c] exI [of _ "plan_schedule c pays"] exI [of _ pays])
      (simp add: i p g len r)
qed

end
